theory Spec2Isabelle
  imports Main "HOL-Library.AList"
begin

unbundle bit_operations_syntax

section \<open>Go strings and the library functions the provider calls\<close>

text \<open>
  A Go string is a sequence of bytes: \<^typ>\<open>string\<close>, with \<^term>\<open>byte c\<close> the value of a byte.
  The functions of this section are the parts of the Go standard library that
  \<^verbatim>\<open>internal/provider/resource_url.go\<close> and \<^verbatim>\<open>resource_file.go\<close> call
  (\<^verbatim>\<open>strings\<close>, \<^verbatim>\<open>strconv\<close>, \<^verbatim>\<open>path/filepath\<close>, \<^verbatim>\<open>net/url\<close>), on a Unix system
  (the path separator is the slash, so \<^verbatim>\<open>filepath.ToSlash\<close> and \<^verbatim>\<open>filepath.FromSlash\<close> return
  their argument).
\<close>

definition byte :: "char \<Rightarrow> nat" where
  "byte c = of_char c"

definition HasPrefix :: "string \<Rightarrow> string \<Rightarrow> bool" where
  "HasPrefix s p = (take (length p) s = p)"

fun Contains :: "string \<Rightarrow> string \<Rightarrow> bool" where
  "Contains [] sub = (sub = [])"
| "Contains (c # cs) sub = (if HasPrefix (c # cs) sub then True else Contains cs sub)"

text \<open>\<^verbatim>\<open>strings.Index\<close> and \<^verbatim>\<open>strings.LastIndex\<close> for a one-byte separator: \<open>-1\<close> when absent.\<close>

fun Index :: "string \<Rightarrow> char \<Rightarrow> int" where
  "Index [] sep = -1"
| "Index (c # cs) sep =
     (if c = sep then 0 else (let i = Index cs sep in if i = -1 then -1 else i + 1))"

fun LastIndex :: "string \<Rightarrow> char \<Rightarrow> int" where
  "LastIndex [] sep = -1"
| "LastIndex (c # cs) sep =
     (let i = LastIndex cs sep in
      if i = -1 then (if c = sep then 0 else -1) else i + 1)"

text \<open>\<^verbatim>\<open>strings.Cut\<close> for a one-byte separator: the text before it, the text after it, and
  whether it was found.\<close>

definition Cut :: "string \<Rightarrow> char \<Rightarrow> string \<times> string \<times> bool" where
  "Cut s sep =
     (if sep \<in> set s
      then (takeWhile (\<lambda>c. c \<noteq> sep) s, tl (dropWhile (\<lambda>c. c \<noteq> sep) s), True)
      else (s, [], False))"

definition ToLower :: "string \<Rightarrow> string" where
  "ToLower s = map (\<lambda>c. if 65 \<le> byte c \<and> byte c \<le> 90 then char_of (byte c + 32) else c) s"

subsection \<open>\<^verbatim>\<open>strconv.ParseUint(s, 8, 32)\<close>\<close>

datatype NumError = ErrSyntax | ErrRange

text \<open>
  The loop of \<^verbatim>\<open>ParseUint\<close> with base 8 and bit size 32. A byte that is not a digit
  \<open>0..7\<close> is a syntax error (a letter or \<open>8\<close>, \<open>9\<close> has a digit value of at least the base);
  \<open>cutoff\<close> is \<open>maxUint64 / 8 + 1\<close> and \<open>maxVal\<close> is \<open>2^32 - 1\<close>. The accumulator stays
  below \<open>2^64\<close>, so the unsigned arithmetic of the source never wraps.
\<close>

fun ParseUint_loop :: "nat \<Rightarrow> string \<Rightarrow> NumError + nat" where
  "ParseUint_loop n [] = Inr n"
| "ParseUint_loop n (c # cs) =
     (if 48 \<le> byte c \<and> byte c \<le> 55 then
        (if n \<ge> 2 ^ 61 then Inl ErrRange
         else if n * 8 + (byte c - 48) > 2 ^ 32 - 1 then Inl ErrRange
         else ParseUint_loop (n * 8 + (byte c - 48)) cs)
      else Inl ErrSyntax)"

definition ParseUint :: "string \<Rightarrow> NumError + nat" where
  "ParseUint s = (if s = [] then Inl ErrSyntax else ParseUint_loop 0 s)"

subsection \<open>\<^verbatim>\<open>filepath.Clean\<close> and \<^verbatim>\<open>filepath.Abs\<close>\<close>

text \<open>
  \<^verbatim>\<open>Clean\<close> works on the elements between separators: an empty element and \<open>.\<close> are
  dropped, \<open>..\<close> removes the element before it (at the root it is dropped; in a relative path
  with nothing left to remove it is kept), any other element is kept. The elements kept so far
  are held in reverse.
\<close>

fun split_sep :: "string \<Rightarrow> string list" where
  "split_sep [] = [[]]"
| "split_sep (c # cs) =
     (if c = CHR ''/'' then [] # split_sep cs
      else (case split_sep cs of [] \<Rightarrow> [[c]] | x # xs \<Rightarrow> (c # x) # xs))"

fun join_sep :: "string list \<Rightarrow> string" where
  "join_sep [] = []"
| "join_sep [x] = x"
| "join_sep (x # y # ys) = x @ CHR ''/'' # join_sep (y # ys)"

definition clean_step :: "bool \<Rightarrow> string list \<Rightarrow> string \<Rightarrow> string list" where
  "clean_step rooted st e =
     (if e = [] then st
      else if e = ''.'' then st
      else if e = ''..'' then
        (case st of
           [] \<Rightarrow> if rooted then [] else [''..'']
         | t # ts \<Rightarrow> if t = ''..'' then ''..'' # st else ts)
      else e # st)"

definition Clean :: "string \<Rightarrow> string" where
  "Clean p =
     (if p = [] then ''.''
      else
        (let rooted = (hd p = CHR ''/'');
             body = join_sep (rev (foldl (clean_step rooted) [] (split_sep p)))
         in if rooted then CHR ''/'' # body
            else if body = [] then ''.'' else body))"

definition IsAbs :: "string \<Rightarrow> bool" where
  "IsAbs p = HasPrefix p ''/''"

text \<open>\<^verbatim>\<open>filepath.Join(wd, p)\<close>: the non-empty elements joined by a slash, then cleaned.\<close>

definition Join2 :: "string \<Rightarrow> string \<Rightarrow> string" where
  "Join2 wd p =
     (if wd = [] then (if p = [] then [] else Clean p)
      else Clean (wd @ CHR ''/'' # p))"

datatype errno = ENOENT | EOTHER

text \<open>\<^verbatim>\<open>filepath.Abs\<close>; \<open>wd\<close> is the result of \<^verbatim>\<open>os.Getwd\<close>, \<open>None\<close> when it fails.\<close>

definition filepath_Abs :: "string option \<Rightarrow> string \<Rightarrow> string option" where
  "filepath_Abs wd p =
     (if IsAbs p then Some (Clean p)
      else (case wd of None \<Rightarrow> None | Some d \<Rightarrow> Some (Join2 d p)))"

subsection \<open>\<^verbatim>\<open>net/url\<close>\<close>

definition ishex :: "char \<Rightarrow> bool" where
  "ishex c =
     (if 48 \<le> byte c \<and> byte c \<le> 57 then True
      else if 97 \<le> byte c \<and> byte c \<le> 102 then True
      else (65 \<le> byte c \<and> byte c \<le> 70))"

definition unhex :: "char \<Rightarrow> nat" where
  "unhex c =
     (if 48 \<le> byte c \<and> byte c \<le> 57 then byte c - 48
      else if 97 \<le> byte c \<and> byte c \<le> 102 then byte c - 97 + 10
      else if 65 \<le> byte c \<and> byte c \<le> 70 then byte c - 65 + 10
      else 0)"

definition upperhex :: "nat \<Rightarrow> char" where
  "upperhex n = ''0123456789ABCDEF'' ! n"

text \<open>\<^verbatim>\<open>shouldEscape(c, encodePath)\<close>: letters, digits, the marks \<open>- _ . ~\<close> and the reserved
  bytes \<open>$ & + , / : ; = @\<close> are kept; \<open>?\<close> and every other byte are escaped.\<close>

definition shouldEscape :: "char \<Rightarrow> bool" where
  "shouldEscape c =
     (if 97 \<le> byte c \<and> byte c \<le> 122 then False
      else if 65 \<le> byte c \<and> byte c \<le> 90 then False
      else if 48 \<le> byte c \<and> byte c \<le> 57 then False
      else if c \<in> set ''-_.~'' then False
      else if c \<in> set ''$&+,/:;=@'' then False
      else True)"

fun escape :: "string \<Rightarrow> string" where
  "escape [] = []"
| "escape (c # cs) =
     (if shouldEscape c
      then CHR ''%'' # upperhex (byte c div 16) # upperhex (byte c mod 16) # escape cs
      else c # escape cs)"

text \<open>\<^verbatim>\<open>unescape\<close> in the path and fragment modes: \<open>None\<close> is the \<^verbatim>\<open>EscapeError\<close> of a
  percent sign that two hexadecimal digits do not follow.\<close>

fun unescape :: "string \<Rightarrow> string option" where
  "unescape [] = Some []"
| "unescape (c # cs) =
     (if c = CHR ''%'' then
        (case cs of
           h1 # h2 # rest \<Rightarrow>
             (if ishex h1 \<and> ishex h2
              then map_option ((#) (char_of (unhex h1 * 16 + unhex h2))) (unescape rest)
              else None)
         | _ \<Rightarrow> None)
      else map_option ((#) c) (unescape cs))"

text \<open>
  The fields of \<^verbatim>\<open>url.URL\<close> that \<^verbatim>\<open>Parse\<close> and \<^verbatim>\<open>String\<close> read and write here. The user
  information, the flag \<^verbatim>\<open>OmitHost\<close> and the raw forms of path and fragment are left out, and
  \<^verbatim>\<open>String\<close> writes the host as it is: \<^verbatim>\<open>fileToID\<close> builds a URL with only \<open>Scheme\<close> and
  \<open>Path\<close> set, and \<^verbatim>\<open>idToFile\<close> reads only those two.
\<close>

record URL =
  Scheme :: string
  Opaque :: string
  Host :: string
  Path :: string
  ForceQuery :: bool
  RawQuery :: string
  Fragment :: string

definition URL_String :: "URL \<Rightarrow> string" where
  "URL_String u =
     (if Scheme u = [] then [] else Scheme u @ '':'')
     @ (if Opaque u = [] then
          (if Scheme u = [] \<and> Host u = [] then []
           else (if Host u = [] \<and> Path u = [] then [] else ''//'') @ Host u)
          @ (let p = (if Path u = ''*'' then ''*'' else escape (Path u)) in
             (if p = [] then []
              else if hd p = CHR ''/'' then []
              else if Host u = [] then []
              else ''/'')
             @ (if Scheme u = [] \<and> Host u = [] \<and> CHR '':'' \<in> set (fst (Cut p CHR ''/''))
                then ''./'' else [])
             @ p)
        else Opaque u)
     @ (if ForceQuery u then CHR ''?'' # RawQuery u
        else if RawQuery u = [] then [] else CHR ''?'' # RawQuery u)
     @ (if Fragment u = [] then [] else CHR ''#'' # escape (Fragment u))"

fun getScheme :: "string \<Rightarrow> nat \<Rightarrow> string \<Rightarrow> (string \<times> string) option" where
  "getScheme rawURL i [] = Some ([], rawURL)"
| "getScheme rawURL i (c # cs) =
     (if (97 \<le> byte c \<and> byte c \<le> 122) \<or> (65 \<le> byte c \<and> byte c \<le> 90)
        then getScheme rawURL (i + 1) cs
      else if (48 \<le> byte c \<and> byte c \<le> 57) \<or> c = CHR ''+'' \<or> c = CHR ''-'' \<or> c = CHR ''.''
        then (if i = 0 then Some ([], rawURL) else getScheme rawURL (i + 1) cs)
      else if c = CHR '':''
        then (if i = 0 then None else Some (take i rawURL, cs))
      else Some ([], rawURL))"

definition stringContainsCTLByte :: "string \<Rightarrow> bool" where
  "stringContainsCTLByte s = list_ex (\<lambda>c. byte c < 32 \<or> byte c = 127) s"

text \<open>
  The library behaviour that stays a parameter: the SHA-256 digest in lowercase hexadecimal,
  the media type that \<^verbatim>\<open>mime.ParseMediaType\<close> returns (\<open>None\<close> when it returns an error), and
  the host that \<^verbatim>\<open>parseAuthority\<close> of \<^verbatim>\<open>net/url\<close> returns for a non-empty authority (\<open>None\<close>
  when it returns an error).
\<close>

record lib =
  sha256_hex :: "string \<Rightarrow> string"
  ParseMediaType :: "string \<Rightarrow> string option"
  parseAuthority :: "string \<Rightarrow> string option"

text \<open>\<^verbatim>\<open>parse(rawURL, false)\<close>. For the empty authority \<^verbatim>\<open>parseAuthority\<close> returns the
  empty host and no error.\<close>

definition url_parse :: "lib \<Rightarrow> string \<Rightarrow> URL option" where
  "url_parse L rawURL =
     (if stringContainsCTLByte rawURL then None
      else if rawURL = ''*'' then
        Some \<lparr>Scheme = [], Opaque = [], Host = [], Path = ''*'', ForceQuery = False,
              RawQuery = [], Fragment = []\<rparr>
      else
        (case getScheme rawURL 0 rawURL of
           None \<Rightarrow> None
         | Some (scheme0, rest0) \<Rightarrow>
            (let scheme = ToLower scheme0;
                 force = (rest0 \<noteq> [] \<and> last rest0 = CHR ''?'' \<and> count_list rest0 CHR ''?'' = 1);
                 rest1 = (if force then butlast rest0 else fst (Cut rest0 CHR ''?''));
                 query = (if force then [] else fst (snd (Cut rest0 CHR ''?'')))
             in
               if \<not> HasPrefix rest1 ''/'' \<and> scheme \<noteq> [] then
                 Some \<lparr>Scheme = scheme, Opaque = rest1, Host = [], Path = [], ForceQuery = force,
                       RawQuery = query, Fragment = []\<rparr>
               else if \<not> HasPrefix rest1 ''/'' \<and> CHR '':'' \<in> set (fst (Cut rest1 CHR ''/'')) then None
               else
                 (let has_authority =
                        (if scheme = [] \<and> HasPrefix rest1 ''///'' then False
                         else HasPrefix rest1 ''//'');
                      authority = (if has_authority then fst (Cut (drop 2 rest1) CHR ''/'') else []);
                      rest2 = (if has_authority
                               then drop (length authority) (drop 2 rest1) else rest1);
                      host = (if authority = [] then Some [] else parseAuthority L authority)
                  in
                    (case host of
                       None \<Rightarrow> None
                     | Some h \<Rightarrow>
                        (case unescape rest2 of
                           None \<Rightarrow> None
                         | Some p \<Rightarrow>
                            Some \<lparr>Scheme = scheme, Opaque = [], Host = h, Path = p,
                                  ForceQuery = force, RawQuery = query, Fragment = []\<rparr>))))))"

text \<open>\<^verbatim>\<open>url.Parse\<close>: the fragment is cut off first and unescaped last.\<close>

definition url_Parse :: "lib \<Rightarrow> string \<Rightarrow> URL option" where
  "url_Parse L rawURL =
     (case Cut rawURL CHR ''#'' of
        (u, frag, _) \<Rightarrow>
          (case url_parse L u of
             None \<Rightarrow> None
           | Some v \<Rightarrow>
              (if frag = [] then Some v
               else (case unescape frag of
                       None \<Rightarrow> None
                     | Some f \<Rightarrow> Some (v\<lparr>Fragment := f\<rparr>)))))"

subsection \<open>\<^verbatim>\<open>net/textproto\<close>: canonical header keys, and \<^verbatim>\<open>http.Header\<close>\<close>

definition validHeaderFieldByte :: "char \<Rightarrow> bool" where
  "validHeaderFieldByte c =
     (if 97 \<le> byte c \<and> byte c \<le> 122 then True
      else if 65 \<le> byte c \<and> byte c \<le> 90 then True
      else if 48 \<le> byte c \<and> byte c \<le> 57 then True
      else byte c \<in> set [33, 35, 36, 37, 38, 39, 42, 43, 45, 46, 94, 95, 96, 124, 126])"

fun canon_loop :: "bool \<Rightarrow> string \<Rightarrow> string" where
  "canon_loop upper [] = []"
| "canon_loop upper (c # cs) =
     (let c' = (if upper \<and> 97 \<le> byte c \<and> byte c \<le> 122 then char_of (byte c - 32)
                else if \<not> upper \<and> 65 \<le> byte c \<and> byte c \<le> 90 then char_of (byte c + 32)
                else c)
      in c' # canon_loop (c' = CHR ''-'') cs)"

text \<open>\<^verbatim>\<open>textproto.CanonicalMIMEHeaderKey\<close>: a key with a byte that cannot stand in a header
  field name is returned as it is.\<close>

definition CanonicalMIMEHeaderKey :: "string \<Rightarrow> string" where
  "CanonicalMIMEHeaderKey s = (if list_all validHeaderFieldByte s then canon_loop True s else s)"

type_synonym Header = "(string \<times> string list) list"

definition Header_Set :: "string \<Rightarrow> string \<Rightarrow> Header \<Rightarrow> Header" where
  "Header_Set k v h = AList.update (CanonicalMIMEHeaderKey k) [v] h"

definition Header_Get :: "Header \<Rightarrow> string \<Rightarrow> string" where
  "Header_Get h k =
     (case map_of h (CanonicalMIMEHeaderKey k) of
        None \<Rightarrow> []
      | Some vs \<Rightarrow> (case vs of [] \<Rightarrow> [] | v # _ \<Rightarrow> v))"

section \<open>Diagnostics, resource data and the world\<close>

text \<open>
  An error of the source is a \<open>message\<close>. A message that the source builds with the verbs
  \<^verbatim>\<open>%q\<close> and \<^verbatim>\<open>%w\<close> keeps its parts (the path, the wrapped error of the operating system)
  as the arguments of a constructor; a message that is plain text is \<open>Msg\<close>.
\<close>

datatype message =
    Msg string
  | OsError errno
  | NumErrorText string NumError
  | InvalidIdFormat string
  | InvalidIdScheme string
  | NewRequestError string
  | GetwdError
  | CouldNotStatFile string errno
  | CouldNotRemoveFile string errno
  | CouldNotStatDestination string errno
  | CouldNotStatSource string errno
  | FailedChmod nat string errno
  | CouldNotOpenSource string errno
  | CouldNotStatSourceFile string errno
  | CouldNotCreateDestination string errno
  | ErrorCopying string string
  | ErrorReadingBody string
  | CouldNotHash string
  | BodyReadError

datatype severity = Error | Warning

record diagnostic =
  Severity :: severity
  Summary :: message
  Detail :: message

type_synonym diags = "diagnostic list"

definition FromErr :: "message \<Rightarrow> diags" where
  "FromErr e = [\<lparr>Severity = Error, Summary = e, Detail = Msg []\<rparr>]"

definition HasError :: "diags \<Rightarrow> bool" where
  "HasError ds = list_ex (\<lambda>d. Severity d = Error) ds"

text \<open>
  \<^verbatim>\<open>schema.ResourceData\<close>: the identity and the fields of the two schemas
  (\<^verbatim>\<open>resourceURLSchema\<close>, \<^verbatim>\<open>resourceFileSchema\<close>). A string field that is not set reads as
  the empty string; \<open>headers\<close> lists the map in the order in which the \<^verbatim>\<open>range\<close> loop of
  \<^verbatim>\<open>makeRequest\<close> visits it. \<^verbatim>\<open>GetOk\<close> reports a field as set when it is not the zero value.
\<close>

record ResourceData =
  Ident :: string
  url :: string
  headers :: "(string \<times> string) list"
  filename :: string
  file_mode :: string
  last_modified :: string
  etag :: string
  content_sha256 :: string
  source :: string
  destination :: string

definition GetOk :: "'a list \<Rightarrow> 'a list \<times> bool" where
  "GetOk v = (v, v \<noteq> [])"

record regfile =
  Content :: string
  Mode :: nat

record request =
  Method :: string
  ReqURL :: string
  ReqHeader :: Header

text \<open>A response: \<open>BodyErr\<close> says that reading the body fails before its end.\<close>

record response =
  StatusCode :: nat
  Status :: string
  RespHeader :: Header
  Body :: string
  BodyErr :: bool

datatype syscall =
  SysStat | SysOpen | SysFstat | SysOpenFile | SysRead | SysWrite | SysClose | SysChmod | SysRemove

datatype event =
    EvStat string
  | EvOpen string
  | EvFstat string
  | EvOpenFile string nat
  | EvRead string
  | EvCopy string string
  | EvCopyBody string
  | EvClose string
  | EvChmod string nat
  | EvRemove string
  | EvDo request
  | EvReadAll

text \<open>
  The world outside the provider. \<open>Files\<close> maps a path to a regular file. \<open>Fault w c p\<close> says
  that the call \<open>c\<close> on the path \<open>p\<close> fails for a reason other than a missing file (a
  permission, a full disk, an I/O error), and it is fixed while the provider runs: it does not
  follow the permission bits that the provider sets. A copy that fails has moved \<open>Partial w\<close>
  bytes at most. \<open>Getwd\<close> is the working directory (\<open>None\<close> when \<^verbatim>\<open>os.Getwd\<close> fails). \<open>Do w req\<close> is
  what \<^verbatim>\<open>http.Client.Do\<close> returns for a request: the response (\<open>None\<close> for \<^verbatim>\<open>nil\<close>) and
  whether the error is set. \<open>Trace\<close> records every call that reaches the file system or the
  network, in order. Closing a handle that was opened for reading and closing a response body
  change nothing and their errors are dropped by the source: they are not recorded. The mode
  of a file is what \<^verbatim>\<open>Stat().Mode()\<close> returns. \<open>Umask\<close> is the file mode creation mask of the
  process: the system clears its permission bits in the mode of every file it creates.
\<close>

record world =
  Files :: "string \<Rightarrow> regfile option"
  Fault :: "syscall \<Rightarrow> string \<Rightarrow> bool"
  Partial :: nat
  Getwd :: "string option"
  Do :: "request \<Rightarrow> response option \<times> bool"
  Umask :: nat
  Trace :: "event list"

definition record_event :: "event \<Rightarrow> world \<Rightarrow> world" where
  "record_event e w = w\<lparr>Trace := Trace w @ [e]\<rparr>"

definition os_Stat :: "string \<Rightarrow> world \<Rightarrow> (errno + regfile) \<times> world" where
  "os_Stat p w =
     ((if Fault w SysStat p then Inl EOTHER
       else (case Files w p of None \<Rightarrow> Inl ENOENT | Some f \<Rightarrow> Inr f)),
      record_event (EvStat p) w)"

definition os_Open :: "string \<Rightarrow> world \<Rightarrow> (errno + regfile) \<times> world" where
  "os_Open p w =
     ((if Fault w SysOpen p then Inl EOTHER
       else (case Files w p of None \<Rightarrow> Inl ENOENT | Some f \<Rightarrow> Inr f)),
      record_event (EvOpen p) w)"

text \<open>\<^verbatim>\<open>(*os.File).Stat\<close> on the handle of the file \<open>f\<close> opened at \<open>p\<close>.\<close>

definition File_Stat :: "string \<Rightarrow> regfile \<Rightarrow> world \<Rightarrow> (errno + regfile) \<times> world" where
  "File_Stat p f w =
     ((if Fault w SysFstat p then Inl EOTHER else Inr f), record_event (EvFstat p) w)"

text \<open>The bits of a \<^verbatim>\<open>FileMode\<close> that \<^verbatim>\<open>syscallMode\<close> passes to the system: the permission
  bits \<open>0777\<close> and the flags \<^verbatim>\<open>ModeSetuid\<close>, \<^verbatim>\<open>ModeSetgid\<close>, \<^verbatim>\<open>ModeSticky\<close>
  (bits 23, 22 and 20).\<close>

definition syscallMode :: "nat \<Rightarrow> nat" where
  "syscallMode m = m AND (511 + 2 ^ 23 + 2 ^ 22 + 2 ^ 20)"

text \<open>The mode of a file created with the mode \<open>perm\<close> under the mask \<open>u\<close>:
  \<^verbatim>\<open>perm & ~(u & 0777)\<close>, as \<^verbatim>\<open>open(2)\<close> computes it.\<close>

definition apply_umask :: "nat \<Rightarrow> nat \<Rightarrow> nat" where
  "apply_umask perm u = nat (int perm AND NOT (int (u AND 511)))"

text \<open>\<^verbatim>\<open>os.OpenFile(p, O_CREATE|O_TRUNC|O_WRONLY, perm)\<close>: an existing file is truncated and
  keeps its mode, a missing file is created empty with the mode asked for, less the bits of
  the umask.\<close>

definition os_OpenFile :: "string \<Rightarrow> nat \<Rightarrow> world \<Rightarrow> errno option \<times> world" where
  "os_OpenFile p perm w =
     (if Fault w SysOpenFile p then (Some EOTHER, record_event (EvOpenFile p perm) w)
      else
        (None,
         record_event (EvOpenFile p perm)
           (w\<lparr>Files := (Files w)
                (p \<mapsto> (case Files w p of
                          None \<Rightarrow> \<lparr>Content = [], Mode = apply_umask (syscallMode perm) (Umask w)\<rparr>
                        | Some f \<Rightarrow> f\<lparr>Content := []\<rparr>))\<rparr>)))"

definition File_Write :: "string \<Rightarrow> string \<Rightarrow> world \<Rightarrow> world" where
  "File_Write p bytes w =
     w\<lparr>Files := (Files w)(p := map_option (\<lambda>f. f\<lparr>Content := bytes\<rparr>) (Files w p))\<rparr>"

definition File_Close :: "string \<Rightarrow> world \<Rightarrow> errno option \<times> world" where
  "File_Close p w =
     ((if Fault w SysClose p then Some EOTHER else None), record_event (EvClose p) w)"

definition os_Remove :: "string \<Rightarrow> world \<Rightarrow> errno option \<times> world" where
  "os_Remove p w =
     (if Fault w SysRemove p then (Some EOTHER, record_event (EvRemove p) w)
      else (case Files w p of
              None \<Rightarrow> (Some ENOENT, record_event (EvRemove p) w)
            | Some f \<Rightarrow> (None, record_event (EvRemove p) (w\<lparr>Files := (Files w)(p := None)\<rparr>))))"

definition os_Chmod :: "string \<Rightarrow> nat \<Rightarrow> world \<Rightarrow> errno option \<times> world" where
  "os_Chmod p m w =
     (if Fault w SysChmod p then (Some EOTHER, record_event (EvChmod p m) w)
      else (case Files w p of
              None \<Rightarrow> (Some ENOENT, record_event (EvChmod p m) w)
            | Some f \<Rightarrow>
                (None,
                 record_event (EvChmod p m)
                   (w\<lparr>Files := (Files w)(p \<mapsto> f\<lparr>Mode := syscallMode m\<rparr>)\<rparr>))))"

text \<open>\<^verbatim>\<open>io.Copy(dest, src)\<close> between two open files: the result says whether it failed. The
  bytes are those the source file holds when the copy runs.\<close>

definition io_Copy :: "string \<Rightarrow> string \<Rightarrow> world \<Rightarrow> bool \<times> world" where
  "io_Copy dst src w =
     (let bytes = (case Files w src of None \<Rightarrow> [] | Some f \<Rightarrow> Content f);
          failed = (Fault w SysRead src \<or> Fault w SysWrite dst)
      in (failed,
          record_event (EvCopy src dst)
            (File_Write dst (if failed then take (Partial w) bytes else bytes) w)))"

text \<open>\<^verbatim>\<open>io.Copy(dest, body)\<close> from the body of a response.\<close>

definition io_Copy_body :: "string \<Rightarrow> response \<Rightarrow> world \<Rightarrow> bool \<times> world" where
  "io_Copy_body dst r w =
     (let failed = (BodyErr r \<or> Fault w SysWrite dst)
      in (failed,
          record_event (EvCopyBody dst)
            (File_Write dst (if failed then take (Partial w) (Body r) else Body r) w)))"

definition IsNotExist :: "errno + 'a \<Rightarrow> bool" where
  "IsNotExist r = (case r of Inl e \<Rightarrow> e = ENOENT | Inr _ \<Rightarrow> False)"

section \<open>The identity codec and the content fingerprint\<close>

definition idToFile :: "lib \<Rightarrow> string option \<Rightarrow> string \<Rightarrow> message + string" where
  "idToFile L wd ident =
     (case url_Parse L ident of
        None \<Rightarrow> Inl (InvalidIdFormat ident)
      | Some u \<Rightarrow>
          (if Scheme u = ''file''
           then (case filepath_Abs wd (Path u) of None \<Rightarrow> Inl GetwdError | Some a \<Rightarrow> Inr a)
           else Inl (InvalidIdScheme (Scheme u))))"

definition fileToID :: "string option \<Rightarrow> string \<Rightarrow> message + string" where
  "fileToID wd file_name =
     (case filepath_Abs wd file_name of
        None \<Rightarrow> Inl GetwdError
      | Some a \<Rightarrow>
          Inr (URL_String \<lparr>Scheme = ''file'', Opaque = [], Host = [], Path = a,
                           ForceQuery = False, RawQuery = [], Fragment = []\<rparr>))"

definition hashFile :: "lib \<Rightarrow> string \<Rightarrow> world \<Rightarrow> (message + string) \<times> world" where
  "hashFile L file_name w =
     (case os_Open file_name w of
        (Inl e, w1) \<Rightarrow> (Inl (OsError e), w1)
      | (Inr fd, w1) \<Rightarrow>
          (if Fault w1 SysRead file_name
           then (Inl (CouldNotHash file_name), record_event (EvRead file_name) w1)
           else (Inr (sha256_hex L (Content fd)), record_event (EvRead file_name) w1)))"

section \<open>The local copy engine (\<^verbatim>\<open>resource_file.go\<close>)\<close>

text \<open>The error text of the \<^verbatim>\<open>file_mode\<close> diagnostic of the copy engine.\<close>

definition invalid_mode_diag :: "string \<Rightarrow> NumError \<Rightarrow> diagnostic" where
  "invalid_mode_diag v e =
     \<lparr>Severity = Error, Summary = Msg ''file_mode is not a valid octal number'',
      Detail = NumErrorText v e\<rparr>"

definition copyFile :: "string \<Rightarrow> string \<Rightarrow> nat \<Rightarrow> world \<Rightarrow> message option \<times> world" where
  "copyFile src dst mode w =
     (case os_Open src w of
        (Inl e, w1) \<Rightarrow> (Some (CouldNotOpenSource src e), w1)
      | (Inr fd, w1) \<Rightarrow>
         (case (if mode = 0
                then (case File_Stat src fd w1 of
                        (Inl e, w2) \<Rightarrow> (Inl (CouldNotStatSourceFile src e), w2)
                      | (Inr st, w2) \<Rightarrow> (Inr (Mode st), w2))
                else (Inr mode, w1)) of
            (Inl e, w2) \<Rightarrow> (Some e, w2)
          | (Inr mode1, w2) \<Rightarrow>
             (case os_OpenFile dst mode1 w2 of
                (Some e, w3) \<Rightarrow> (Some (CouldNotCreateDestination dst e), w3)
              | (None, w3) \<Rightarrow>
                 (case io_Copy dst src w3 of
                    (True, w4) \<Rightarrow>
                      (let w5 = snd (File_Close dst w4);
                           w6 = snd (os_Remove dst w5);
                           w7 = snd (File_Close dst w6)
                       in (Some (ErrorCopying src dst), w7))
                  | (False, w4) \<Rightarrow>
                      (case File_Close dst w4 of
                         (Some e, w5) \<Rightarrow> (Some (OsError e), w5)
                       | (None, w5) \<Rightarrow> (None, w5))))))"

definition ensureFileMode :: "ResourceData \<Rightarrow> world \<Rightarrow> diags \<times> world" where
  "ensureFileMode d w =
     (let src = source d; dest = destination d in
      case os_Stat dest w of
        (Inl e, w1) \<Rightarrow> (FromErr (CouldNotStatDestination dest e), w1)
      | (Inr destStat, w1) \<Rightarrow>
         (case (case GetOk (file_mode d) of
                  (v, True) \<Rightarrow>
                    (case ParseUint v of
                       Inl e \<Rightarrow> (Inl [invalid_mode_diag v e], w1)
                     | Inr m \<Rightarrow> (Inr m, w1))
                | (v, False) \<Rightarrow>
                    (case os_Stat src w1 of
                       (Inl e, w2) \<Rightarrow> (Inl (FromErr (CouldNotStatSource dest e)), w2)
                     | (Inr srcStat, w2) \<Rightarrow> (Inr (Mode srcStat), w2))) of
            (Inl ds, w2) \<Rightarrow> (ds, w2)
          | (Inr mode, w2) \<Rightarrow>
             (if mode = Mode destStat then ([], w2)
              else (case os_Chmod dest mode w2 of
                      (Some e, w3) \<Rightarrow> (FromErr (FailedChmod mode dest e), w3)
                    | (None, w3) \<Rightarrow> ([], w3)))))"

definition ensureCopyFile :: "lib \<Rightarrow> ResourceData \<Rightarrow> world \<Rightarrow> diags \<times> ResourceData \<times> world" where
  "ensureCopyFile L d w =
     (let src = source d; dest = destination d in
      case hashFile L src w of
        (Inl e, w1) \<Rightarrow> (FromErr e, d, w1)
      | (Inr sourceHash, w1) \<Rightarrow>
         (case hashFile L dest w1 of
            (destHash, w2) \<Rightarrow>
              (if destHash = Inr sourceHash
               then (case ensureFileMode d w2 of (ds, w3) \<Rightarrow> (ds, d, w3))
               else
                 (case (case GetOk (file_mode d) of
                          (v, True) \<Rightarrow>
                            (case ParseUint v of
                               Inl e \<Rightarrow> Inl [invalid_mode_diag v e]
                             | Inr m \<Rightarrow> Inr m)
                        | (v, False) \<Rightarrow> Inr 0) of
                    Inl ds \<Rightarrow> (ds, d, w2)
                  | Inr mode \<Rightarrow>
                     (case copyFile src dest mode w2 of
                        (Some e, w3) \<Rightarrow> (FromErr e, d, w3)
                      | (None, w3) \<Rightarrow> ([], d\<lparr>content_sha256 := sourceHash\<rparr>, w3))))))"

definition resourceFileCreate :: "lib \<Rightarrow> ResourceData \<Rightarrow> world \<Rightarrow> diags \<times> ResourceData \<times> world" where
  "resourceFileCreate L d w =
     (case ensureCopyFile L d w of
        (ds, d1, w1) \<Rightarrow>
          (if HasError ds then (ds, d1, w1)
           else (case fileToID (Getwd w1) (destination d1) of
                   Inl e \<Rightarrow> (FromErr e, d1, w1)
                 | Inr i \<Rightarrow> (ds, d1\<lparr>Ident := i\<rparr>, w1))))"

definition resourceFileRead :: "lib \<Rightarrow> ResourceData \<Rightarrow> world \<Rightarrow> diags \<times> ResourceData \<times> world" where
  "resourceFileRead L d w =
     (case idToFile L (Getwd w) (Ident d) of
        Inl e \<Rightarrow> (FromErr e, d, w)
      | Inr file_name \<Rightarrow>
         (case hashFile L file_name w of
            (fileHash, w1) \<Rightarrow>
              (if fileHash = Inl (OsError ENOENT) then ([], d\<lparr>Ident := []\<rparr>, w1)
               else (case fileHash of
                       Inl e \<Rightarrow> (FromErr e, d, w1)
                     | Inr h \<Rightarrow> ([], d\<lparr>content_sha256 := h\<rparr>, w1)))))"

definition resourceFileUpdate :: "lib \<Rightarrow> ResourceData \<Rightarrow> world \<Rightarrow> diags \<times> ResourceData \<times> world" where
  "resourceFileUpdate L d w =
     (case ensureCopyFile L d w of
        (ds, d1, w1) \<Rightarrow>
          (if HasError ds then (ds, d1, w1) else resourceFileRead L d1 w1))"

definition resourceFileDelete :: "lib \<Rightarrow> ResourceData \<Rightarrow> world \<Rightarrow> diags \<times> world" where
  "resourceFileDelete L d w =
     (case idToFile L (Getwd w) (Ident d) of
        Inl e \<Rightarrow> (FromErr e, w)
      | Inr name \<Rightarrow>
         (case os_Stat name w of
            (st, w1) \<Rightarrow>
              (if IsNotExist st then ([], w1)
               else (case st of
                       Inl e \<Rightarrow> (FromErr (CouldNotStatFile name e), w1)
                     | Inr _ \<Rightarrow>
                        (case os_Remove name w1 of
                           (Some e, w2) \<Rightarrow> (FromErr (CouldNotRemoveFile name e), w2)
                         | (None, w2) \<Rightarrow> ([], w2))))))"

section \<open>The remote fetch engine (\<^verbatim>\<open>resource_url.go\<close>)\<close>

text \<open>\<^verbatim>\<open>http.NewRequest(method, url, nil)\<close> fails when the URL does not parse; the request
  starts with no header.\<close>

definition http_NewRequest :: "lib \<Rightarrow> string \<Rightarrow> string \<Rightarrow> request option" where
  "http_NewRequest L method u =
     (case url_Parse L u of
        None \<Rightarrow> None
      | Some _ \<Rightarrow> Some \<lparr>Method = method, ReqURL = u, ReqHeader = []\<rparr>)"

definition makeRequest :: "lib \<Rightarrow> string \<Rightarrow> ResourceData \<Rightarrow> message + request" where
  "makeRequest L method d =
     (let etag0 = (case GetOk (etag d) of (v, ok) \<Rightarrow> if ok then v else []);
          modified = (case GetOk (last_modified d) of (v, ok) \<Rightarrow> if ok then v else [])
      in case http_NewRequest L method (url d) of
           None \<Rightarrow> Inl (NewRequestError (url d))
         | Some req \<Rightarrow>
            (let h1 = (case GetOk (headers d) of
                         (m, ok) \<Rightarrow>
                           if ok then fold (\<lambda>(k, v) h. Header_Set k v h) m (ReqHeader req)
                           else ReqHeader req);
                 h2 = (if etag0 \<noteq> [] then Header_Set ''If-None-Match'' etag0 h1
                       else if modified \<noteq> [] then Header_Set ''If-Modified-Since'' modified h1
                       else h1)
             in Inr (req\<lparr>ReqHeader := h2\<rparr>)))"

definition getFileMode :: "ResourceData \<Rightarrow> message + nat" where
  "getFileMode d =
     (case GetOk (file_mode d) of
        (v, ok) \<Rightarrow>
          (if ok then
             (case ParseUint v of
                Inl e \<Rightarrow> Inl (Msg ''file_mode is not a valid octal number'')
              | Inr m \<Rightarrow> Inr m)
           else Inr 436))"

definition getNormalizedMediaType :: "lib \<Rightarrow> string \<Rightarrow> string" where
  "getNormalizedMediaType L contentType =
     (case ParseMediaType L contentType of
        None \<Rightarrow> []
      | Some mt \<Rightarrow>
         (let n = int (length mt); slash = Index mt CHR ''/'' in
          if slash = -1 \<or> slash = n - 1 then []
          else (let plus = LastIndex mt CHR ''+'' in
                if plus = n - 1 then []
                else if plus = -1 then mt
                else take (nat (slash + 1)) mt @ drop (nat (plus + 1)) mt)))"

definition isTextual :: "lib \<Rightarrow> string \<Rightarrow> bool" where
  "isTextual L contentType =
     (let mt = getNormalizedMediaType L contentType in
      if mt = [] then False
      else if HasPrefix mt ''text/'' then True
      else mt \<in> set [''application/json'', ''application/xml'', ''application/yaml'',
                      ''application/x-yaml''])"

definition diagResponseError :: "lib \<Rightarrow> response \<Rightarrow> string \<Rightarrow> world \<Rightarrow> diags \<times> world" where
  "diagResponseError L resp summary w =
     (if isTextual L (Header_Get (RespHeader resp) ''Content-Type'') then
        (if BodyErr resp
         then ([\<lparr>Severity = Warning, Summary = Msg ''could not read response body'',
                  Detail = BodyReadError\<rparr>,
                \<lparr>Severity = Error, Summary = Msg summary, Detail = Msg []\<rparr>],
               record_event EvReadAll w)
         else ([\<lparr>Severity = Error, Summary = Msg summary, Detail = Msg (Body resp)\<rparr>],
               record_event EvReadAll w))
      else ([\<lparr>Severity = Error, Summary = Msg summary, Detail = Msg []\<rparr>], w))"

definition writeResponseBody :: "response \<Rightarrow> string \<Rightarrow> nat \<Rightarrow> world \<Rightarrow> message option \<times> world" where
  "writeResponseBody body file_name mode w =
     (let mode1 = (if mode = 0 then 420 else mode) in
      case os_OpenFile file_name mode1 w of
        (Some e, w1) \<Rightarrow> (Some (CouldNotCreateDestination file_name e), w1)
      | (None, w1) \<Rightarrow>
         (case io_Copy_body file_name body w1 of
            (True, w2) \<Rightarrow>
              (let w3 = snd (File_Close file_name w2);
                   w4 = snd (os_Remove file_name w3);
                   w5 = snd (File_Close file_name w4)
               in (Some (ErrorReadingBody file_name), w5))
          | (False, w2) \<Rightarrow>
              (case File_Close file_name w2 of
                 (Some e, w3) \<Rightarrow> (Some (OsError e), w3)
               | (None, w3) \<Rightarrow> (None, w3))))"

text \<open>
  A call of the fetch engine returns diagnostics or panics. In \<^verbatim>\<open>ensureDownloadFile\<close> the
  diagnostics built from the error of \<^verbatim>\<open>c.Do\<close> are not returned (the statement is
  \<^verbatim>\<open>diag.FromErr(...)\<close> without \<^verbatim>\<open>return\<close>), so the error flag is not read again; the next
  use of the response, \<^verbatim>\<open>defer resp.Body.Close()\<close>, dereferences it, which panics when the
  response is \<^verbatim>\<open>nil\<close>.
\<close>

datatype 'a outcome = Return 'a | Panic

definition summary_401 :: string where
  "summary_401 =
     ''this url requires authorization. You may need to add Authorization header to this resource''"

definition summary_403 :: string where
  "summary_403 =
     ''the server rejected your auth credentials. They may be expired or you may not be allowed to download this anymore.''"

definition summary_default :: "string \<Rightarrow> string" where
  "summary_default status = ''the server returned an unexpected response code: '' @ status"

definition ensureDownloadFile ::
  "lib \<Rightarrow> ResourceData \<Rightarrow> nat \<Rightarrow> world \<Rightarrow> diags outcome \<times> ResourceData \<times> world" where
  "ensureDownloadFile L d mode w =
     (case makeRequest L ''GET'' d of
        Inl e \<Rightarrow> (Return (FromErr e), d, w)
      | Inr req \<Rightarrow>
         (case Do w req of
            (resp0, err) \<Rightarrow>
              (let w1 = record_event (EvDo req) w;
                   dest = filename d in
               case resp0 of
                 None \<Rightarrow> (Panic, d, w1)
               | Some resp \<Rightarrow>
                  (if StatusCode resp = 304 then (Return [], d, w1)
                   else if StatusCode resp = 200 then
                     (let d1 = d\<lparr>etag := Header_Get (RespHeader resp) ''ETag''\<rparr>;
                          d2 = d1\<lparr>last_modified := Header_Get (RespHeader resp) ''Last-Modified''\<rparr>
                      in case writeResponseBody resp dest mode w1 of
                           (Some e, w2) \<Rightarrow> (Return (FromErr e), d2, w2)
                         | (None, w2) \<Rightarrow>
                             (Return [], d2\<lparr>content_sha256 := sha256_hex L (Body resp)\<rparr>, w2))
                   else if StatusCode resp = 401 then
                     (case diagResponseError L resp summary_401 w1 of
                        (ds, w2) \<Rightarrow> (Return ds, d, w2))
                   else if StatusCode resp = 403 then
                     (case diagResponseError L resp summary_403 w1 of
                        (ds, w2) \<Rightarrow> (Return ds, d, w2))
                   else
                     (case diagResponseError L resp (summary_default (Status resp)) w1 of
                        (ds, w2) \<Rightarrow> (Return ds, d, w2))))))"

definition resourceURLCreate ::
  "lib \<Rightarrow> ResourceData \<Rightarrow> world \<Rightarrow> diags outcome \<times> ResourceData \<times> world" where
  "resourceURLCreate L d w =
     (case getFileMode d of
        Inl e \<Rightarrow> (Return (FromErr e), d, w)
      | Inr mode \<Rightarrow>
         (case ensureDownloadFile L d mode w of
            (Panic, d1, w1) \<Rightarrow> (Panic, d1, w1)
          | (Return ds, d1, w1) \<Rightarrow>
              (if HasError ds then (Return ds, d1, w1)
               else (case fileToID (Getwd w1) (filename d1) of
                       Inl e \<Rightarrow> (Return (FromErr e), d1, w1)
                     | Inr i \<Rightarrow> (Return ds, d1\<lparr>Ident := i\<rparr>, w1)))))"

definition resourceURLRead ::
  "lib \<Rightarrow> ResourceData \<Rightarrow> world \<Rightarrow> diags outcome \<times> ResourceData \<times> world" where
  "resourceURLRead L d w =
     (case idToFile L (Getwd w) (Ident d) of
        Inl e \<Rightarrow> (Return (FromErr e), d, w)
      | Inr file_name \<Rightarrow>
         (case os_Stat file_name w of
            (st, w1) \<Rightarrow>
              (if IsNotExist st then (Return [], d\<lparr>Ident := []\<rparr>, w1)
               else (case st of
                       Inl e \<Rightarrow> (Return (FromErr (OsError e)), d, w1)
                     | Inr _ \<Rightarrow>
                        (case getFileMode d of
                           Inl e \<Rightarrow> (Return (FromErr e), d, w1)
                         | Inr mode \<Rightarrow> ensureDownloadFile L d mode w1)))))"

definition resourceURLDelete :: "lib \<Rightarrow> ResourceData \<Rightarrow> world \<Rightarrow> diags \<times> world" where
  "resourceURLDelete L d w =
     (case idToFile L (Getwd w) (Ident d) of
        Inl e \<Rightarrow> (FromErr e, w)
      | Inr name \<Rightarrow>
         (case os_Stat name w of
            (st, w1) \<Rightarrow>
              (if IsNotExist st then ([], w1)
               else (case st of
                       Inl e \<Rightarrow> (FromErr (CouldNotStatFile name e), w1)
                     | Inr _ \<Rightarrow>
                        (case os_Remove name w1 of
                           (Some e, w2) \<Rightarrow> (FromErr (CouldNotRemoveFile name e), w2)
                         | (None, w2) \<Rightarrow> ([], w2))))))"

section \<open>Observations on a trace, and concrete inputs\<close>

text \<open>The modes with which \<^verbatim>\<open>os.OpenFile\<close> was called on the path \<open>p\<close>, in order.\<close>

definition opened_with :: "string \<Rightarrow> event list \<Rightarrow> nat list" where
  "opened_with p tr =
     concat (map (\<lambda>e. case e of EvOpenFile q m \<Rightarrow> if q = p then [m] else [] | _ \<Rightarrow> []) tr)"

text \<open>The concrete inputs of the examples: a library whose digest is a tagged copy of the
  bytes, a world without faults that holds the files \<open>fs\<close>, answers every request with
  \<open>r\<close> and has the usual umask \<open>022\<close>, and the data of a URL resource with the file mode
  \<open>fm\<close>.\<close>

definition lib0 :: lib where
  "lib0 = \<lparr>sha256_hex = (\<lambda>s. ''sha256:'' @ s), ParseMediaType = (\<lambda>s. Some s),
           parseAuthority = (\<lambda>a. Some a)\<rparr>"

definition resp200 :: response where
  "resp200 = \<lparr>StatusCode = 200, Status = ''200 OK'',
              RespHeader = [(''Etag'', [''v2'']), (''Last-Modified'', [''Mon, 02 Jan 2006 15:04:05 GMT''])],
              Body = ''hello'', BodyErr = False\<rparr>"

text \<open>The same answer, whose body cannot be read to its end.\<close>

definition resp200_cut :: response where
  "resp200_cut = resp200\<lparr>BodyErr := True\<rparr>"

definition world_of :: "(string \<times> regfile) list \<Rightarrow> response option \<times> bool \<Rightarrow> world" where
  "world_of fs r =
     \<lparr>Files = map_of fs, Fault = (\<lambda>c p. False), Partial = 1, Getwd = Some ''/work'',
      Do = (\<lambda>req. r), Umask = 18, Trace = []\<rparr>"

definition url_data :: "string \<Rightarrow> ResourceData" where
  "url_data fm =
     \<lparr>Ident = [], url = ''http://example.org/f'', headers = [(''authorization'', ''Bearer secret'')],
      filename = ''/tmp/f'', file_mode = fm, last_modified = [], etag = [], content_sha256 = [],
      source = [], destination = []\<rparr>"

definition req0 :: request where
  "req0 = \<lparr>Method = ''GET'', ReqURL = ''http://example.org/f'',
           ReqHeader = [(''Authorization'', [''Bearer secret''])]\<rparr>"

text \<open>The events that only read: \<^verbatim>\<open>os.Stat\<close>, \<^verbatim>\<open>os.Open\<close> and reading a file into the
  digest. \<open>new_events w w'\<close> are the events that \<open>w'\<close> has recorded after \<open>w\<close>.\<close>

definition is_read_event :: "event \<Rightarrow> bool" where
  "is_read_event e =
     (case e of EvStat _ \<Rightarrow> True | EvOpen _ \<Rightarrow> True | EvRead _ \<Rightarrow> True | _ \<Rightarrow> False)"

definition new_events :: "world \<Rightarrow> world \<Rightarrow> event list" where
  "new_events w w' = drop (length (Trace w)) (Trace w')"

text \<open>The data of a file resource with the file mode \<open>fm\<close>, and a world that holds its
  source but not its destination.\<close>

definition file_data :: "string \<Rightarrow> ResourceData" where
  "file_data fm =
     \<lparr>Ident = [], url = [], headers = [], filename = [], file_mode = fm, last_modified = [],
      etag = [], content_sha256 = [], source = ''/src'', destination = ''/dst''\<rparr>"

definition src_world :: world where
  "src_world = world_of [(''/src'', \<lparr>Content = ''foo'', Mode = 420\<rparr>)] (None, True)"

text \<open>The data of a URL resource after a Create that stored the entity tag \<open>v1\<close>, and a
  world that holds its file.\<close>

definition created_url_data :: ResourceData where
  "created_url_data =
     \<lparr>Ident = ''file:///tmp/f'', url = ''http://example.org/f'',
      headers = [(''authorization'', ''Bearer secret'')],
      filename = ''/tmp/f'', file_mode = [], last_modified = [], etag = ''v1'',
      content_sha256 = ''sha256:old'', source = [], destination = []\<rparr>"

definition req1 :: request where
  "req1 = \<lparr>Method = ''GET'', ReqURL = ''http://example.org/f'',
           ReqHeader = [(''Authorization'', [''Bearer secret'']), (''If-None-Match'', [''v1''])]\<rparr>"

definition dst_world :: "response option \<times> bool \<Rightarrow> world" where
  "dst_world r = world_of [(''/tmp/f'', \<lparr>Content = ''old'', Mode = 436\<rparr>)] r"

definition resp304 :: response where
  "resp304 = \<lparr>StatusCode = 304, Status = ''304 Not Modified'', RespHeader = [], Body = [],
              BodyErr = False\<rparr>"

definition resp401 :: "string \<Rightarrow> string \<Rightarrow> response" where
  "resp401 ct body =
     \<lparr>StatusCode = 401, Status = ''401 Unauthorized'', RespHeader = [(''Content-Type'', [ct])],
      Body = body, BodyErr = False\<rparr>"

text \<open>A world in which writing to the destination of \<open>file_data\<close> fails after one byte
  and removing it fails as well.\<close>

definition stuck_world :: world where
  "stuck_world =
     src_world\<lparr>Fault := (\<lambda>c p. if p = ''/dst'' then (c = SysWrite \<or> c = SysRemove) else False)\<rparr>"

text \<open>The events that change the content of a file or remove it. \<open>resolved_mode\<close>,
  \<open>copy_succeeds\<close> and \<open>copies\<close> say when \<^verbatim>\<open>ensureCopyFile\<close> reaches \<^verbatim>\<open>copyFile\<close> and the copy
  returns no error.\<close>

definition is_copy_event :: "event \<Rightarrow> bool" where
  "is_copy_event e =
     (case e of EvOpenFile _ _ \<Rightarrow> True | EvCopy _ _ \<Rightarrow> True | EvCopyBody _ \<Rightarrow> True
      | EvRemove _ \<Rightarrow> True | _ \<Rightarrow> False)"

definition resolved_mode :: "ResourceData \<Rightarrow> nat option" where
  "resolved_mode d =
     (if file_mode d = [] then Some 0
      else (case ParseUint (file_mode d) of Inl _ \<Rightarrow> None | Inr m \<Rightarrow> Some m))"

definition copy_succeeds :: "string \<Rightarrow> string \<Rightarrow> nat \<Rightarrow> world \<Rightarrow> bool" where
  "copy_succeeds src dst mode w =
     (if Fault w SysOpen src \<or> Files w src = None then False
      else if mode = 0 \<and> Fault w SysFstat src then False
      else if Fault w SysOpenFile dst then False
      else if Fault w SysRead src \<or> Fault w SysWrite dst then False
      else \<not> Fault w SysClose dst)"

definition copies :: "lib \<Rightarrow> ResourceData \<Rightarrow> world \<Rightarrow> bool" where
  "copies L d w =
     (case fst (hashFile L (source d) w) of
        Inl _ \<Rightarrow> False
      | Inr h \<Rightarrow>
          (if fst (hashFile L (destination d) w) = Inr h then False
           else (case resolved_mode d of
                   None \<Rightarrow> False
                 | Some m \<Rightarrow> copy_succeeds (source d) (destination d) m w)))"

text \<open>A world in which the destination of \<open>file_data\<close> already holds the bytes of the
  source, with another mode.\<close>

definition match_world :: world where
  "match_world =
     world_of [(''/src'', \<lparr>Content = ''foo'', Mode = 420\<rparr>),
               (''/dst'', \<lparr>Content = ''foo'', Mode = 384\<rparr>)] (None, True)"

text \<open>An element that \<^verbatim>\<open>Clean\<close> keeps in a rooted path.\<close>

definition regular :: "string \<Rightarrow> bool" where
  "regular e = (if e = [] \<or> e = ''.'' \<or> e = ''..'' then False else CHR ''/'' \<notin> set e)"

text \<open>A byte that \<^verbatim>\<open>url.Parse\<close> reads as part of a path: no control byte, no \<open>#\<close> and
  no \<open>?\<close>.\<close>

definition url_safe :: "char \<Rightarrow> bool" where
  "url_safe c =
     (if c = CHR ''#'' \<or> c = CHR ''?'' then False
      else if byte c < 32 \<or> byte c = 127 then False
      else True)"

section \<open>Basic facts\<close>

lemma byte_eq_iff: "byte c = byte c' \<longleftrightarrow> c = c'"
  by (simp add: byte_def)

lemma byte_48: "byte c = 48 \<longleftrightarrow> c = CHR ''0''"
  using byte_eq_iff [of c "CHR ''0''"] by (simp add: byte_def)

lemma Trace_record_event: "Trace (record_event e w) = Trace w @ [e]"
  by (simp add: record_event_def)

lemma Umask_record_event: "Umask (record_event e w) = Umask w"
  by (simp add: record_event_def)

lemma opened_with_append: "opened_with p (xs @ ys) = opened_with p xs @ opened_with p ys"
  by (simp add: opened_with_def)

lemma opened_with_Nil: "opened_with p [] = []"
  by (simp add: opened_with_def)

lemma opened_with_Cons:
  "opened_with p (e # es) =
     (case e of EvOpenFile q m \<Rightarrow> if q = p then [m] else [] | _ \<Rightarrow> []) @ opened_with p es"
  by (simp add: opened_with_def)

lemma makeRequest_url_data: "makeRequest lib0 ''GET'' (url_data []) = Inr req0"
  by code_simp

lemma makeRequest_url_data_0000: "makeRequest lib0 ''GET'' (url_data ''0000'') = Inr req0"
  by code_simp

section \<open>The file mode of the fetch engine\<close>

lemma ParseUint_loop_zero:
  "ParseUint_loop n s = Inr 0 \<longleftrightarrow> n = 0 \<and> list_all (\<lambda>c. c = CHR ''0'') s"
proof (induction s arbitrary: n)
  case Nil
  show ?case by simp
next
  case (Cons c cs)
  show ?case
  proof (cases "48 \<le> byte c \<and> byte c \<le> 55")
    case False
    then have "byte c \<noteq> 48" by arith
    with False show ?thesis by (auto simp: byte_48)
  next
    case True
    have "byte c - 48 = 0 \<longleftrightarrow> c = CHR ''0''"
      using True byte_48 [of c] by arith
    with True Cons.IH [of "n * 8 + (byte c - 48)"] show ?thesis
      by auto
  qed
qed

lemma ParseUint_zero:
  "ParseUint s = Inr 0 \<longleftrightarrow> s \<noteq> [] \<and> list_all (\<lambda>c. c = CHR ''0'') s"
  by (simp add: ParseUint_def ParseUint_loop_zero)

lemma getFileMode_zero:
  "getFileMode d = Inr 0 \<longleftrightarrow> file_mode d \<noteq> [] \<and> list_all (\<lambda>c. c = CHR ''0'') (file_mode d)"
  using ParseUint_zero [of "file_mode d"]
  by (auto simp: getFileMode_def GetOk_def split: sum.splits)

lemma getFileMode_0000: "getFileMode (url_data ''0000'') = Inr 0"
  by (simp add: getFileMode_def GetOk_def ParseUint_def url_data_def byte_def)

lemma syscallMode_436: "syscallMode 436 = 436"
  by (simp add: syscallMode_def)

lemma apply_umask_022: "apply_umask 436 18 = 420" "apply_umask 420 18 = 420"
  by (simp_all add: apply_umask_def)

lemma apply_umask_0: "apply_umask m 0 = m"
  by (simp add: apply_umask_def)

lemma writeResponseBody_opened:
  "opened_with p (Trace (snd (writeResponseBody resp p mode w))) =
     opened_with p (Trace w) @ [if mode = 0 then 420 else mode]"
  by (simp add: writeResponseBody_def os_OpenFile_def io_Copy_body_def File_Close_def
      os_Remove_def File_Write_def Let_def Trace_record_event opened_with_append
      opened_with_Nil opened_with_Cons record_event_def split: option.splits)

lemma writeResponseBody_fresh:
  "Files w p = None \<Longrightarrow> \<not> Fault w SysOpenFile p \<Longrightarrow> \<not> BodyErr resp \<Longrightarrow> \<not> Fault w SysWrite p \<Longrightarrow>
   Files (snd (writeResponseBody resp p mode w)) p =
     Some \<lparr>Content = Body resp, Mode = apply_umask (syscallMode (if mode = 0 then 420 else mode)) (Umask w)\<rparr>"
  by (simp add: writeResponseBody_def os_OpenFile_def io_Copy_body_def File_Close_def
      File_Write_def Let_def record_event_def split: option.splits)

lemma writeResponseBody_written:
  "\<not> Fault w SysOpenFile p \<Longrightarrow> \<not> BodyErr resp \<Longrightarrow> \<not> Fault w SysWrite p \<Longrightarrow>
   Files (snd (writeResponseBody resp p mode w)) p =
     Some (case Files w p of
             None \<Rightarrow> \<lparr>Content = Body resp,
                      Mode = apply_umask (syscallMode (if mode = 0 then 420 else mode)) (Umask w)\<rparr>
           | Some f \<Rightarrow> f\<lparr>Content := Body resp\<rparr>)"
  by (simp add: writeResponseBody_def os_OpenFile_def io_Copy_body_def File_Close_def
      File_Write_def Let_def record_event_def split: option.splits)

lemma resourceURLCreate_200:
  assumes "makeRequest L ''GET'' d = Inr req" and "Do w req = (Some resp, err)"
    and "StatusCode resp = 200" and "getFileMode d = Inr mode"
  shows "snd (snd (resourceURLCreate L d w)) =
           snd (writeResponseBody resp (filename d) mode (record_event (EvDo req) w))"
  using assms
  by (simp add: resourceURLCreate_def ensureDownloadFile_def Let_def
      split: prod.splits option.splits sum.splits outcome.splits)

text \<open>
  Claim C10, as the code has it. The resolved mode is zero exactly when \<^verbatim>\<open>file_mode\<close> is a
  non-empty string of zeros (\<open>0\<close>, but also \<open>00\<close> or \<open>0000\<close>); \<^verbatim>\<open>writeResponseBody\<close> opens the
  destination with \<open>0644\<close> exactly when it is given the mode zero. When \<^verbatim>\<open>file_mode\<close> is absent
  the resolved mode is \<open>0664\<close>, and a Create that receives a 200 response opens the destination
  with \<open>0664\<close>. When the write does not fail, the destination holds the body; a destination
  that did not exist has the mode \<open>0664\<close> less the permission bits of the umask of the process
  (\<open>0664\<close> itself only under a umask that clears none of these bits), and a destination that
  existed keeps its mode.
\<close>

theorem url_default_file_mode:
  "(getFileMode d = Inr 0 \<longleftrightarrow> (file_mode d \<noteq> [] \<and> list_all (\<lambda>c. c = CHR ''0'') (file_mode d)))
   \<and> opened_with p (Trace (snd (writeResponseBody resp p mode w))) =
       opened_with p (Trace w) @ [if mode = 0 then 420 else mode]
   \<and> (file_mode d = [] \<longrightarrow> getFileMode d = Inr 436)
   \<and> (file_mode d = [] \<and> makeRequest L ''GET'' d = Inr req \<and> Do w req = (Some resp, err)
        \<and> StatusCode resp = 200 \<longrightarrow>
      opened_with (filename d) (Trace (snd (snd (resourceURLCreate L d w)))) =
        opened_with (filename d) (Trace w) @ [436]
      \<and> (\<not> Fault w SysOpenFile (filename d) \<and> \<not> BodyErr resp
           \<and> \<not> Fault w SysWrite (filename d) \<longrightarrow>
         Files (snd (snd (resourceURLCreate L d w))) (filename d) =
           Some (case Files w (filename d) of
                   None \<Rightarrow> \<lparr>Content = Body resp, Mode = apply_umask 436 (Umask w)\<rparr>
                 | Some f \<Rightarrow> f\<lparr>Content := Body resp\<rparr>)))"
proof -
  have absent: "getFileMode d = Inr 436" if "file_mode d = []"
    using that by (simp add: getFileMode_def GetOk_def)
  have create: "snd (snd (resourceURLCreate L d w)) =
      snd (writeResponseBody resp (filename d) 436 (record_event (EvDo req) w))"
    if "file_mode d = []" "makeRequest L ''GET'' d = Inr req" "Do w req = (Some resp, err)"
      "StatusCode resp = 200"
    using that absent by (simp add: resourceURLCreate_200)
  have fresh: "Files (snd (writeResponseBody resp (filename d) 436 (record_event (EvDo req) w)))
        (filename d) =
      Some (case Files w (filename d) of
              None \<Rightarrow> \<lparr>Content = Body resp, Mode = apply_umask 436 (Umask w)\<rparr>
            | Some f \<Rightarrow> f\<lparr>Content := Body resp\<rparr>)"
    if "\<not> Fault w SysOpenFile (filename d)" "\<not> BodyErr resp" "\<not> Fault w SysWrite (filename d)"
    using that writeResponseBody_written [of "record_event (EvDo req) w" "filename d" resp 436]
    by (cases "Files w (filename d)") (simp_all add: record_event_def syscallMode_436)
  show ?thesis
    using absent create fresh
    by (simp add: getFileMode_zero writeResponseBody_opened Trace_record_event
        opened_with_append opened_with_Nil opened_with_Cons)
qed

theorem url_default_file_mode_witness:
  "getFileMode (url_data []) = Inr 436
   \<and> opened_with ''/tmp/f''
       (Trace (snd (snd (resourceURLCreate lib0 (url_data []) (world_of [] (Some resp200, False)))))) = [436]
   \<and> Umask (world_of [] (Some resp200, False)) = 18
   \<and> Files (snd (snd (resourceURLCreate lib0 (url_data []) (world_of [] (Some resp200, False))))) ''/tmp/f'' =
       Some \<lparr>Content = ''hello'', Mode = 420\<rparr>"
proof -
  have a: "file_mode (url_data []) = []" by (simp add: url_data_def)
  have c: "Do (world_of [] (Some resp200, False)) req0 = (Some resp200, False)"
    by (simp add: world_of_def)
  have d: "StatusCode resp200 = 200" by (simp add: resp200_def)
  have e: "Files (world_of [] (Some resp200, False)) (filename (url_data [])) = None
     \<and> \<not> Fault (world_of [] (Some resp200, False)) SysOpenFile (filename (url_data []))
     \<and> \<not> BodyErr resp200
     \<and> \<not> Fault (world_of [] (Some resp200, False)) SysWrite (filename (url_data []))"
    by (simp add: world_of_def resp200_def)
  have f: "filename (url_data []) = ''/tmp/f''" "Trace (world_of [] (Some resp200, False)) = []"
    "Body resp200 = ''hello''" "Umask (world_of [] (Some resp200, False)) = 18"
    by (simp_all add: url_data_def world_of_def resp200_def)
  show ?thesis
    using url_default_file_mode [where d = "url_data []" and w = "world_of [] (Some resp200, False)"
        and L = lib0 and req = req0 and resp = resp200 and err = False]
      a makeRequest_url_data c d e f
    by (simp add: opened_with_Nil apply_umask_022)
qed

lemma getFileMode_absent: "getFileMode (url_data []) = Inr 436"
  by (simp add: getFileMode_def GetOk_def url_data_def)

text \<open>Against claim C10 as stated: the file mode \<open>0000\<close> is not the string \<open>0\<close>, it resolves
  to the mode zero, and the destination is opened with the fallback \<open>0644\<close>. And with no file
  mode, under the umask \<open>022\<close>, the destination is created with the mode \<open>0644\<close>, not \<open>0664\<close>.\<close>

theorem fallback_mode_counterexample:
  "file_mode (url_data ''0000'') \<noteq> ''0''
   \<and> getFileMode (url_data ''0000'') = Inr 0
   \<and> opened_with ''/tmp/f''
       (Trace (snd (snd (resourceURLCreate lib0 (url_data ''0000'') (world_of [] (Some resp200, False)))))) =
     [420]
   \<and> file_mode (url_data []) = []
   \<and> Files (world_of [] (Some resp200, False)) ''/tmp/f'' = None
   \<and> Umask (world_of [] (Some resp200, False)) = 18
   \<and> map_option Mode
        (Files (snd (snd (resourceURLCreate lib0 (url_data []) (world_of [] (Some resp200, False)))))
           ''/tmp/f'') = Some 420
   \<and> (420 :: nat) \<noteq> 436"
proof -
  let ?w = "world_of [] (Some resp200, False)"
  have c: "Do ?w req0 = (Some resp200, False)"
    by (simp add: world_of_def)
  have d: "StatusCode resp200 = 200" by (simp add: resp200_def)
  have f: "filename (url_data ''0000'') = ''/tmp/f''" "file_mode (url_data ''0000'') = ''0000''"
    "Trace ?w = []" "filename (url_data []) = ''/tmp/f''" "file_mode (url_data []) = []"
    by (simp_all add: url_data_def world_of_def)
  have g: "Files (record_event (EvDo req0) ?w) ''/tmp/f'' = None"
    "\<not> Fault (record_event (EvDo req0) ?w) SysOpenFile ''/tmp/f''" "\<not> BodyErr resp200"
    "\<not> Fault (record_event (EvDo req0) ?w) SysWrite ''/tmp/f''"
    "Umask (record_event (EvDo req0) ?w) = 18" "Umask ?w = 18" "Files ?w ''/tmp/f'' = None"
    by (simp_all add: record_event_def world_of_def resp200_def)
  have zeros: "opened_with ''/tmp/f'' (Trace (snd (snd (resourceURLCreate lib0 (url_data ''0000'') ?w))))
      = [420]"
    using resourceURLCreate_200 [OF makeRequest_url_data_0000 c d getFileMode_0000] f
    by (simp add: writeResponseBody_opened Trace_record_event opened_with_append
        opened_with_Nil opened_with_Cons)
  have masked: "map_option Mode (Files (snd (snd (resourceURLCreate lib0 (url_data []) ?w))) ''/tmp/f'')
      = Some 420"
    unfolding resourceURLCreate_200 [OF makeRequest_url_data c d getFileMode_absent] f
      writeResponseBody_fresh [OF g(1-4)] g
    by (simp add: syscallMode_436 apply_umask_022)
  show ?thesis
    using zeros masked by (simp add: getFileMode_0000 f g)
qed

section \<open>An invalid file mode\<close>

lemma hashFile_fst:
  "fst (hashFile L p w) =
     (if Fault w SysOpen p then Inl (OsError EOTHER)
      else (case Files w p of
              None \<Rightarrow> Inl (OsError ENOENT)
            | Some f \<Rightarrow> if Fault w SysRead p then Inl (CouldNotHash p)
                        else Inr (sha256_hex L (Content f))))"
  by (simp add: hashFile_def os_Open_def record_event_def split: option.splits)

lemma hashFile_snd:
  "snd (hashFile L p w) =
     w\<lparr>Trace := Trace w @ (if Fault w SysOpen p \<or> Files w p = None then [EvOpen p]
                            else [EvOpen p, EvRead p])\<rparr>"
  by (simp add: hashFile_def os_Open_def record_event_def split: option.splits)

lemma os_Stat_fst:
  "fst (os_Stat p w) =
     (if Fault w SysStat p then Inl EOTHER
      else (case Files w p of None \<Rightarrow> Inl ENOENT | Some f \<Rightarrow> Inr f))"
  by (simp add: os_Stat_def)

lemma os_Stat_snd: "snd (os_Stat p w) = w\<lparr>Trace := Trace w @ [EvStat p]\<rparr>"
  by (simp add: os_Stat_def record_event_def)

lemma ensureCopyFile_source_error:
  "fst (hashFile L (source d) w) = Inl e \<Longrightarrow>
   ensureCopyFile L d w = (FromErr e, d, snd (hashFile L (source d) w))"
  by (cases "hashFile L (source d) w") (simp add: ensureCopyFile_def)

lemma ensureCopyFile_match:
  "fst (hashFile L (source d) w) = Inr h \<Longrightarrow>
   fst (hashFile L (destination d) (snd (hashFile L (source d) w))) = Inr h \<Longrightarrow>
   ensureCopyFile L d w =
     (fst (ensureFileMode d (snd (hashFile L (destination d) (snd (hashFile L (source d) w))))), d,
      snd (ensureFileMode d (snd (hashFile L (destination d) (snd (hashFile L (source d) w))))))"
  by (cases "hashFile L (source d) w";
      cases "hashFile L (destination d) (snd (hashFile L (source d) w))")
    (simp add: ensureCopyFile_def split: prod.splits)

lemma ensureCopyFile_invalid:
  "fst (hashFile L (source d) w) = Inr h \<Longrightarrow>
   fst (hashFile L (destination d) (snd (hashFile L (source d) w))) \<noteq> Inr h \<Longrightarrow>
   file_mode d \<noteq> [] \<Longrightarrow> ParseUint (file_mode d) = Inl e \<Longrightarrow>
   ensureCopyFile L d w =
     ([invalid_mode_diag (file_mode d) e], d,
      snd (hashFile L (destination d) (snd (hashFile L (source d) w))))"
  by (cases "hashFile L (source d) w";
      cases "hashFile L (destination d) (snd (hashFile L (source d) w))")
    (simp add: ensureCopyFile_def GetOk_def)

lemma ensureCopyFile_copy:
  "fst (hashFile L (source d) w) = Inr h \<Longrightarrow>
   fst (hashFile L (destination d) (snd (hashFile L (source d) w))) \<noteq> Inr h \<Longrightarrow>
   (if file_mode d = [] then mode = 0 else ParseUint (file_mode d) = Inr mode) \<Longrightarrow>
   ensureCopyFile L d w =
     (case copyFile (source d) (destination d) mode
             (snd (hashFile L (destination d) (snd (hashFile L (source d) w)))) of
        (Some e, w3) \<Rightarrow> (FromErr e, d, w3)
      | (None, w3) \<Rightarrow> ([], d\<lparr>content_sha256 := h\<rparr>, w3))"
  by (cases "hashFile L (source d) w";
      cases "hashFile L (destination d) (snd (hashFile L (source d) w))")
    (simp add: ensureCopyFile_def GetOk_def split: if_splits)

lemma ensureFileMode_stat_error:
  "fst (os_Stat (destination d) w) = Inl e \<Longrightarrow>
   ensureFileMode d w = (FromErr (CouldNotStatDestination (destination d) e), snd (os_Stat (destination d) w))"
  by (cases "os_Stat (destination d) w") (simp add: ensureFileMode_def)

lemma ensureFileMode_invalid:
  "fst (os_Stat (destination d) w) = Inr st \<Longrightarrow> file_mode d \<noteq> [] \<Longrightarrow>
   ParseUint (file_mode d) = Inl e \<Longrightarrow>
   ensureFileMode d w = ([invalid_mode_diag (file_mode d) e], snd (os_Stat (destination d) w))"
  by (cases "os_Stat (destination d) w") (simp add: ensureFileMode_def GetOk_def)

lemma HasError_FromErr: "HasError (FromErr e)"
  by (simp add: HasError_def FromErr_def)

lemma HasError_invalid_mode: "HasError [invalid_mode_diag v e]"
  by (simp add: HasError_def invalid_mode_diag_def)

lemma ensureCopyFile_invalid_mode:
  assumes present: "file_mode d \<noteq> []" and bad: "ParseUint (file_mode d) = Inl e"
  shows "HasError (fst (ensureCopyFile L d w))
    \<and> fst (snd (ensureCopyFile L d w)) = d
    \<and> Files (snd (snd (ensureCopyFile L d w))) = Files w
    \<and> list_all is_read_event (new_events w (snd (snd (ensureCopyFile L d w))))
    \<and> (fst (hashFile L (source d) w) = Inr h \<and> \<not> Fault w SysStat (destination d) \<longrightarrow>
         fst (ensureCopyFile L d w) = [invalid_mode_diag (file_mode d) e])"
proof (cases "fst (hashFile L (source d) w)")
  case (Inl err)
  show ?thesis
    by (simp add: ensureCopyFile_source_error [OF Inl] Inl HasError_FromErr hashFile_snd
        new_events_def is_read_event_def)
next
  case (Inr sourceHash)
  let ?w1 = "snd (hashFile L (source d) w)"
  let ?w2 = "snd (hashFile L (destination d) ?w1)"
  show ?thesis
  proof (cases "fst (hashFile L (destination d) ?w1) = Inr sourceHash")
    case False
    show ?thesis
      by (simp add: ensureCopyFile_invalid [OF Inr False present bad] HasError_invalid_mode
          hashFile_snd new_events_def is_read_event_def)
  next
    case True
    note m = ensureCopyFile_match [OF Inr True]
    show ?thesis
    proof (cases "fst (os_Stat (destination d) ?w2)")
      case (Inl err)
      have r: "ensureCopyFile L d w =
          (FromErr (CouldNotStatDestination (destination d) err), d,
           snd (os_Stat (destination d) ?w2))"
        using m ensureFileMode_stat_error [OF Inl] by simp
      have "\<not> (fst (hashFile L (source d) w) = Inr h \<and> \<not> Fault w SysStat (destination d))"
        using Inl True
        by (auto simp: os_Stat_fst hashFile_fst hashFile_snd split: if_splits option.splits)
      moreover have "HasError (fst (ensureCopyFile L d w))
          \<and> fst (snd (ensureCopyFile L d w)) = d
          \<and> Files (snd (snd (ensureCopyFile L d w))) = Files w
          \<and> list_all is_read_event (new_events w (snd (snd (ensureCopyFile L d w))))"
        by (simp add: r HasError_FromErr hashFile_snd os_Stat_snd new_events_def
            is_read_event_def)
      ultimately show ?thesis by blast
    next
      case (Inr st)
      have r: "ensureCopyFile L d w =
          ([invalid_mode_diag (file_mode d) e], d, snd (os_Stat (destination d) ?w2))"
        using m ensureFileMode_invalid [OF Inr present bad] by simp
      show ?thesis
        by (simp add: r HasError_invalid_mode hashFile_snd os_Stat_snd new_events_def
            is_read_event_def)
    qed
  qed
qed

lemma resourceFileCreate_error:
  "HasError (fst (ensureCopyFile L d w)) \<Longrightarrow> resourceFileCreate L d w = ensureCopyFile L d w"
  by (cases "ensureCopyFile L d w") (simp add: resourceFileCreate_def)

lemma resourceFileUpdate_error:
  "HasError (fst (ensureCopyFile L d w)) \<Longrightarrow> resourceFileUpdate L d w = ensureCopyFile L d w"
  by (cases "ensureCopyFile L d w") (simp add: resourceFileUpdate_def)

text \<open>
  Claim C8, as the code has it. With a \<^verbatim>\<open>file_mode\<close> that is present and is not an octal
  number, Create of the fetch engine returns the error before any call reaches the file system
  or the network (the world is unchanged, trace included). Create and Update of the copy engine
  also fail and leave every file as it was, but only after reading: they fingerprint the source
  and the destination (and stat the destination when the fingerprints agree) before the mode is
  parsed. Their error is the invalid-mode diagnostic whenever the source can be fingerprinted
  and the stat of the destination does not fail.
\<close>

theorem invalid_file_mode:
  assumes present: "file_mode d \<noteq> []" and bad: "ParseUint (file_mode d) = Inl e"
  shows "resourceURLCreate L d w =
           (Return (FromErr (Msg ''file_mode is not a valid octal number'')), d, w)
    \<and> resourceFileUpdate L d w' = resourceFileCreate L d w'
    \<and> HasError (fst (resourceFileCreate L d w'))
    \<and> Files (snd (snd (resourceFileCreate L d w'))) = Files w'
    \<and> list_all is_read_event (new_events w' (snd (snd (resourceFileCreate L d w'))))
    \<and> (fst (hashFile L (source d) w') = Inr h \<and> \<not> Fault w' SysStat (destination d) \<longrightarrow>
         fst (resourceFileCreate L d w') = [invalid_mode_diag (file_mode d) e])"
proof -
  have url: "resourceURLCreate L d w =
      (Return (FromErr (Msg ''file_mode is not a valid octal number'')), d, w)"
    using present bad by (simp add: resourceURLCreate_def getFileMode_def GetOk_def)
  note * = ensureCopyFile_invalid_mode [OF present bad, of L w' h]
  have create: "resourceFileCreate L d w' = ensureCopyFile L d w'"
    using * by (simp add: resourceFileCreate_error)
  have update: "resourceFileUpdate L d w' = ensureCopyFile L d w'"
    using * by (simp add: resourceFileUpdate_error)
  show ?thesis
    using url * by (simp add: create update)
qed

lemma ParseUint_abc: "ParseUint ''abc'' = Inl ErrSyntax"
  by (simp add: ParseUint_def byte_def)

lemma src_world_simps:
  "Files src_world ''/src'' = Some \<lparr>Content = ''foo'', Mode = 420\<rparr>"
  "Files src_world ''/dst'' = None"
  "Fault src_world c p = False"
  "Trace src_world = []"
  "Umask src_world = 18"
  by (simp_all add: src_world_def world_of_def)

lemma hashFile_src_world:
  "fst (hashFile lib0 ''/src'' src_world) = Inr ''sha256:foo''"
  "snd (hashFile lib0 ''/src'' src_world) = src_world\<lparr>Trace := [EvOpen ''/src'', EvRead ''/src'']\<rparr>"
  by (simp_all add: hashFile_fst hashFile_snd src_world_simps lib0_def)

theorem invalid_file_mode_witness:
  "resourceURLCreate lib0 (file_data ''abc'') src_world =
     (Return (FromErr (Msg ''file_mode is not a valid octal number'')), file_data ''abc'', src_world)
   \<and> HasError (fst (resourceFileCreate lib0 (file_data ''abc'') src_world))
   \<and> Files (snd (snd (resourceFileCreate lib0 (file_data ''abc'') src_world))) = Files src_world
   \<and> fst (resourceFileCreate lib0 (file_data ''abc'') src_world) =
       [invalid_mode_diag ''abc'' ErrSyntax]"
proof -
  have a: "file_mode (file_data ''abc'') \<noteq> []" "ParseUint (file_mode (file_data ''abc'')) = Inl ErrSyntax"
    by (simp_all add: file_data_def ParseUint_abc)
  have b: "fst (hashFile lib0 (source (file_data ''abc'')) src_world) = Inr ''sha256:foo''"
    "\<not> Fault src_world SysStat (destination (file_data ''abc''))"
    "file_mode (file_data ''abc'') = ''abc''"
    by (simp_all add: file_data_def hashFile_src_world src_world_simps)
  show ?thesis
    using invalid_file_mode [OF a, of lib0 src_world src_world "''sha256:foo''"] b
    by (simp add: HasError_invalid_mode)
qed

text \<open>Against claim C8 as stated: with the file mode \<open>abc\<close> the copy engine has opened and
  read the source and opened the destination by the time Create returns.\<close>

theorem invalid_file_mode_counterexample:
  "file_mode (file_data ''abc'') = ''abc'' \<and> ParseUint ''abc'' = Inl ErrSyntax
   \<and> Trace src_world = []
   \<and> Trace (snd (snd (resourceFileCreate lib0 (file_data ''abc'') src_world))) =
       [EvOpen ''/src'', EvRead ''/src'', EvOpen ''/dst'']"
proof -
  have a: "file_mode (file_data ''abc'') \<noteq> []" "ParseUint (file_mode (file_data ''abc'')) = Inl ErrSyntax"
    by (simp_all add: file_data_def ParseUint_abc)
  have s: "source (file_data ''abc'') = ''/src''" "destination (file_data ''abc'') = ''/dst''"
    by (simp_all add: file_data_def)
  have h1: "fst (hashFile lib0 (source (file_data ''abc'')) src_world) = Inr ''sha256:foo''"
    by (simp add: s hashFile_src_world)
  have h2: "fst (hashFile lib0 (destination (file_data ''abc''))
        (snd (hashFile lib0 (source (file_data ''abc'')) src_world))) \<noteq> Inr ''sha256:foo''"
    by (simp add: s hashFile_src_world hashFile_fst src_world_simps)
  have e: "HasError (fst (ensureCopyFile lib0 (file_data ''abc'') src_world))"
    by (simp add: ensureCopyFile_invalid [OF h1 h2 a] HasError_invalid_mode)
  have "Trace (snd (snd (ensureCopyFile lib0 (file_data ''abc'') src_world))) =
      [EvOpen ''/src'', EvRead ''/src'', EvOpen ''/dst'']"
    unfolding ensureCopyFile_invalid [OF h1 h2 a]
    by (simp add: s hashFile_src_world hashFile_snd src_world_simps)
  then show ?thesis
    by (simp add: resourceFileCreate_error [OF e] ParseUint_abc src_world_simps)
      (simp add: file_data_def)
qed

section \<open>Delete\<close>

lemma os_Remove_fst:
  "fst (os_Remove p w) =
     (if Fault w SysRemove p then Some EOTHER
      else (case Files w p of None \<Rightarrow> Some ENOENT | Some f \<Rightarrow> None))"
  by (simp add: os_Remove_def split: option.splits)

lemma os_Remove_snd:
  "snd (os_Remove p w) =
     (if Fault w SysRemove p \<or> Files w p = None then w\<lparr>Trace := Trace w @ [EvRemove p]\<rparr>
      else w\<lparr>Files := (Files w)(p := None), Trace := Trace w @ [EvRemove p]\<rparr>)"
  by (simp add: os_Remove_def record_event_def split: option.splits)

lemma idToFile_tmp_f: "idToFile lib0 (Some ''/work'') ''file:///tmp/f'' = Inr ''/tmp/f''"
  by code_simp

lemma resourceFileDelete_cases:
  assumes "idToFile L (Getwd w) (Ident d) = Inr name"
  shows "resourceFileDelete L d w =
     (case fst (os_Stat name w) of
        Inl e \<Rightarrow> (if e = ENOENT then [] else FromErr (CouldNotStatFile name e),
                  record_event (EvStat name) w)
      | Inr f \<Rightarrow>
          (case fst (os_Remove name (record_event (EvStat name) w)) of
             Some e \<Rightarrow> FromErr (CouldNotRemoveFile name e)
           | None \<Rightarrow> [],
           snd (os_Remove name (record_event (EvStat name) w))))"
  using assms
  by (cases "os_Remove name (record_event (EvStat name) w)")
    (simp add: resourceFileDelete_def os_Stat_def IsNotExist_def split: sum.splits option.splits)

text \<open>
  Claim C9. The two Delete operations are the same function of the data and the world. With an
  identity that decodes to \<open>name\<close>: when the stat reports that the file does not exist, Delete
  returns no diagnostic and changes nothing; when the stat fails otherwise, Delete returns the
  error; when the file is there, it is removed (an error of the removal is returned), and a
  second Delete after a successful one succeeds as well.
\<close>

theorem delete_contract:
  assumes "idToFile L (Getwd w) (Ident d) = Inr name"
  shows "resourceURLDelete L d w = resourceFileDelete L d w
    \<and> (fst (os_Stat name w) = Inl ENOENT \<longrightarrow>
         resourceFileDelete L d w = ([], record_event (EvStat name) w))
    \<and> (fst (os_Stat name w) = Inl EOTHER \<longrightarrow>
         resourceFileDelete L d w =
           (FromErr (CouldNotStatFile name EOTHER), record_event (EvStat name) w))
    \<and> (fst (os_Stat name w) = Inr f \<and> Fault w SysRemove name \<longrightarrow>
         resourceFileDelete L d w =
           (FromErr (CouldNotRemoveFile name EOTHER),
            record_event (EvRemove name) (record_event (EvStat name) w)))
    \<and> (fst (os_Stat name w) = Inr f \<and> \<not> Fault w SysRemove name \<longrightarrow>
         fst (resourceFileDelete L d w) = []
         \<and> Files (snd (resourceFileDelete L d w)) = (Files w)(name := None)
         \<and> fst (resourceFileDelete L d (snd (resourceFileDelete L d w))) = [])"
proof -
  have eq: "resourceURLDelete L d w = resourceFileDelete L d w"
    by (simp add: resourceURLDelete_def resourceFileDelete_def)
  note c = resourceFileDelete_cases [OF assms]
  have absent: "resourceFileDelete L d w = ([], record_event (EvStat name) w)"
    if "fst (os_Stat name w) = Inl ENOENT"
    using that by (simp add: c)
  have fatal: "resourceFileDelete L d w =
      (FromErr (CouldNotStatFile name EOTHER), record_event (EvStat name) w)"
    if "fst (os_Stat name w) = Inl EOTHER"
    using that by (simp add: c)
  have remove_fails: "resourceFileDelete L d w =
      (FromErr (CouldNotRemoveFile name EOTHER),
       record_event (EvRemove name) (record_event (EvStat name) w))"
    if "fst (os_Stat name w) = Inr f" "Fault w SysRemove name"
    using that by (simp add: c os_Remove_def record_event_def)
  have removed: "resourceFileDelete L d w =
      ([], w\<lparr>Files := (Files w)(name := None), Trace := Trace w @ [EvStat name, EvRemove name]\<rparr>)"
    if "fst (os_Stat name w) = Inr f" "\<not> Fault w SysRemove name"
    using that
    by (auto simp: c os_Remove_def os_Stat_def record_event_def split: if_splits option.splits)
  have again: "fst (resourceFileDelete L d (snd (resourceFileDelete L d w))) = []"
    if "fst (os_Stat name w) = Inr f" "\<not> Fault w SysRemove name"
  proof -
    let ?w' = "w\<lparr>Files := (Files w)(name := None), Trace := Trace w @ [EvStat name, EvRemove name]\<rparr>"
    have "idToFile L (Getwd ?w') (Ident d) = Inr name" using assms by simp
    moreover have "fst (os_Stat name ?w') = Inl ENOENT"
      using that(1) by (simp add: os_Stat_def split: if_splits)
    ultimately have "fst (resourceFileDelete L d ?w') = []"
      by (simp add: resourceFileDelete_cases)
    then show ?thesis by (simp add: removed [OF that])
  qed
  show ?thesis
    using eq absent fatal remove_fails removed again by simp
qed

lemma dst_world_simps:
  "Files (dst_world r) ''/tmp/f'' = Some \<lparr>Content = ''old'', Mode = 436\<rparr>"
  "Fault (dst_world r) c p = False"
  "Trace (dst_world r) = []"
  "Getwd (dst_world r) = Some ''/work''"
  "Do (dst_world r) q = r"
  "Umask (dst_world r) = 18"
  by (simp_all add: dst_world_def world_of_def)

lemma world_of_simps:
  "Files (world_of [] r) p = None"
  "Fault (world_of fs r) c p = False"
  "Trace (world_of fs r) = []"
  "Getwd (world_of fs r) = Some ''/work''"
  "Do (world_of fs r) q = r"
  "Umask (world_of fs r) = 18"
  by (simp_all add: world_of_def)

theorem delete_contract_witness:
  "resourceURLDelete lib0 created_url_data (world_of [] (None, True)) =
     ([], record_event (EvStat ''/tmp/f'') (world_of [] (None, True)))
   \<and> fst (resourceFileDelete lib0 created_url_data (dst_world (None, True))) = []
   \<and> Files (snd (resourceFileDelete lib0 created_url_data (dst_world (None, True)))) ''/tmp/f'' = None"
proof -
  have i: "idToFile lib0 (Getwd (world_of [] (None, True))) (Ident created_url_data) = Inr ''/tmp/f''"
    "idToFile lib0 (Getwd (dst_world (None, True))) (Ident created_url_data) = Inr ''/tmp/f''"
    by (simp_all add: world_of_simps dst_world_simps created_url_data_def idToFile_tmp_f)
  have a: "fst (os_Stat ''/tmp/f'' (world_of [] (None, True))) = Inl ENOENT"
    by (simp add: os_Stat_fst world_of_simps)
  have b: "fst (os_Stat ''/tmp/f'' (dst_world (None, True))) = Inr \<lparr>Content = ''old'', Mode = 436\<rparr>"
    "\<not> Fault (dst_world (None, True)) SysRemove ''/tmp/f''"
    by (simp_all add: os_Stat_fst dst_world_simps)
  show ?thesis
    using delete_contract [OF i(1), of "\<lparr>Content = ''old'', Mode = 436\<rparr>"]
      delete_contract [OF i(2), of "\<lparr>Content = ''old'', Mode = 436\<rparr>"] a b
    by simp
qed

section \<open>A transport failure\<close>

text \<open>
  Claim C3 against the code. When \<^verbatim>\<open>c.Do\<close> fails and returns no response, the error is
  dropped and the fetch panics on the \<^verbatim>\<open>nil\<close> response: no diagnostic is returned. The only
  call recorded is the request, so no file has been opened.
\<close>

theorem transport_failure_panics:
  assumes "makeRequest L ''GET'' d = Inr req" and "fst (Do w req) = None"
  shows "ensureDownloadFile L d mode w = (Panic, d, record_event (EvDo req) w)
    \<and> (getFileMode d = Inr mode \<longrightarrow>
         resourceURLCreate L d w = (Panic, d, record_event (EvDo req) w))"
  using assms
  by (cases "Do w req")
    (simp add: ensureDownloadFile_def resourceURLCreate_def)

theorem transport_failure_panics_witness:
  "resourceURLCreate lib0 (url_data []) (world_of [] (None, True)) =
     (Panic, url_data [], record_event (EvDo req0) (world_of [] (None, True)))"
proof -
  have a: "fst (Do (world_of [] (None, True)) req0) = None"
    by (simp add: world_of_simps)
  have b: "getFileMode (url_data []) = Inr 436"
    by (simp add: getFileMode_def GetOk_def url_data_def)
  show ?thesis
    using transport_failure_panics [OF makeRequest_url_data a, of 436] b by simp
qed

section \<open>Read of the fetch engine\<close>

lemma writeResponseBody_trace:
  "\<exists>evs. Trace (snd (writeResponseBody r p m w)) = Trace w @ evs"
  by (simp add: writeResponseBody_def os_OpenFile_def io_Copy_body_def File_Close_def
      os_Remove_def File_Write_def Let_def record_event_def split: option.splits)

lemma diagResponseError_trace:
  "\<exists>evs. Trace (snd (diagResponseError L r s w)) = Trace w @ evs"
  by (simp add: diagResponseError_def record_event_def)

lemma ensureDownloadFile_200:
  assumes "makeRequest L ''GET'' d = Inr req" and "fst (Do w req) = Some resp"
    and "StatusCode resp = 200"
  shows "ensureDownloadFile L d mode w =
     (case writeResponseBody resp (filename d) mode (record_event (EvDo req) w) of
        (Some e, w2) \<Rightarrow>
          (Return (FromErr e),
           d\<lparr>etag := Header_Get (RespHeader resp) ''ETag'',
             last_modified := Header_Get (RespHeader resp) ''Last-Modified''\<rparr>, w2)
      | (None, w2) \<Rightarrow>
          (Return [],
           d\<lparr>etag := Header_Get (RespHeader resp) ''ETag'',
             last_modified := Header_Get (RespHeader resp) ''Last-Modified'',
             content_sha256 := sha256_hex L (Body resp)\<rparr>, w2))"
  using assms
  by (cases "Do w req") (simp add: ensureDownloadFile_def Let_def split: option.splits)

lemma ensureDownloadFile_304:
  assumes "makeRequest L ''GET'' d = Inr req" and "fst (Do w req) = Some resp"
    and "StatusCode resp = 304"
  shows "ensureDownloadFile L d mode w = (Return [], d, record_event (EvDo req) w)"
  using assms
  by (cases "Do w req") (simp add: ensureDownloadFile_def Let_def)

lemma ensureDownloadFile_error_status:
  assumes "makeRequest L ''GET'' d = Inr req" and "fst (Do w req) = Some resp"
    and "StatusCode resp \<noteq> 304" and "StatusCode resp \<noteq> 200"
  shows "ensureDownloadFile L d mode w =
     (Return (fst (diagResponseError L resp
                (if StatusCode resp = 401 then summary_401
                 else if StatusCode resp = 403 then summary_403
                 else summary_default (Status resp)) (record_event (EvDo req) w))),
      d,
      snd (diagResponseError L resp
                (if StatusCode resp = 401 then summary_401
                 else if StatusCode resp = 403 then summary_403
                 else summary_default (Status resp)) (record_event (EvDo req) w)))"
  using assms
  by (cases "Do w req") (simp add: ensureDownloadFile_def Let_def split: prod.splits)

lemma ensureDownloadFile_trace:
  assumes "makeRequest L ''GET'' d = Inr req"
  shows "\<exists>evs. Trace (snd (snd (ensureDownloadFile L d mode w))) = Trace w @ EvDo req # evs"
proof (cases "fst (Do w req)")
  case None
  then show ?thesis
    using assms by (cases "Do w req") (simp add: ensureDownloadFile_def record_event_def)
next
  case (Some resp)
  consider "StatusCode resp = 304" | "StatusCode resp = 200"
    | "StatusCode resp \<noteq> 304" "StatusCode resp \<noteq> 200" by blast
  then show ?thesis
  proof cases
    case 1
    then show ?thesis
      by (simp add: ensureDownloadFile_304 [OF assms Some] record_event_def)
  next
    case 2
    obtain evs where "Trace (snd (writeResponseBody resp (filename d) mode (record_event (EvDo req) w)))
        = Trace (record_event (EvDo req) w) @ evs"
      using writeResponseBody_trace by blast
    then show ?thesis
      by (cases "writeResponseBody resp (filename d) mode (record_event (EvDo req) w)")
        (auto simp: ensureDownloadFile_200 [OF assms Some 2] record_event_def split: option.splits)
  next
    case 3
    obtain evs where "Trace (snd (diagResponseError L resp
                (if StatusCode resp = 401 then summary_401
                 else if StatusCode resp = 403 then summary_403
                 else summary_default (Status resp)) (record_event (EvDo req) w)))
        = Trace (record_event (EvDo req) w) @ evs"
      using diagResponseError_trace by blast
    then show ?thesis
      by (simp add: ensureDownloadFile_error_status [OF assms Some 3] record_event_def)
  qed
qed

lemma resourceURLRead_exists:
  assumes "idToFile L (Getwd w) (Ident d) = Inr name" and "fst (os_Stat name w) = Inr f"
    and "getFileMode d = Inr mode"
  shows "resourceURLRead L d w = ensureDownloadFile L d mode (record_event (EvStat name) w)"
  using assms
  by (simp add: resourceURLRead_def os_Stat_def IsNotExist_def split: sum.splits)

lemma writeResponseBody_ok:
  assumes "\<not> Fault w SysOpenFile p" and "\<not> BodyErr resp" and "\<not> Fault w SysWrite p"
    and "\<not> Fault w SysClose p"
  shows "writeResponseBody resp p mode w =
     (None,
      w\<lparr>Files := (Files w)
           (p \<mapsto> (case Files w p of
                     None \<Rightarrow> \<lparr>Content = Body resp,
                              Mode = apply_umask (syscallMode (if mode = 0 then 420 else mode)) (Umask w)\<rparr>
                   | Some f \<Rightarrow> f\<lparr>Content := Body resp\<rparr>)),
        Trace := Trace w @ [EvOpenFile p (if mode = 0 then 420 else mode), EvCopyBody p, EvClose p]\<rparr>)"
  using assms
  by (simp add: writeResponseBody_def os_OpenFile_def io_Copy_body_def File_Close_def
      File_Write_def Let_def record_event_def split: option.splits)

lemma writeResponseBody_fst:
  "fst (writeResponseBody resp p mode w) =
     (if Fault w SysOpenFile p then Some (CouldNotCreateDestination p EOTHER)
      else if BodyErr resp \<or> Fault w SysWrite p then Some (ErrorReadingBody p)
      else if Fault w SysClose p then Some (OsError EOTHER)
      else None)"
  by (simp add: writeResponseBody_def os_OpenFile_def io_Copy_body_def File_Close_def
      File_Write_def os_Remove_def Let_def record_event_def split: option.splits)

lemma writeResponseBody_removed:
  assumes "\<not> Fault w SysOpenFile p" and "BodyErr resp \<or> Fault w SysWrite p"
    and "\<not> Fault w SysRemove p"
  shows "Files (snd (writeResponseBody resp p mode w)) p = None"
  using assms
  by (auto simp: writeResponseBody_def os_OpenFile_def io_Copy_body_def File_Close_def
      File_Write_def os_Remove_def Let_def record_event_def split: option.splits)

lemma resourceURLRead_200:
  assumes "idToFile L (Getwd w) (Ident d) = Inr name" and "fst (os_Stat name w) = Inr f"
    and "getFileMode d = Inr mode" and "makeRequest L ''GET'' d = Inr req"
    and "fst (Do w req) = Some resp" and "StatusCode resp = 200"
  shows "resourceURLRead L d w =
     (case fst (writeResponseBody resp (filename d) mode
                  (record_event (EvDo req) (record_event (EvStat name) w))) of
        Some e \<Rightarrow>
          (Return (FromErr e),
           d\<lparr>etag := Header_Get (RespHeader resp) ''ETag'',
             last_modified := Header_Get (RespHeader resp) ''Last-Modified''\<rparr>,
           snd (writeResponseBody resp (filename d) mode
                  (record_event (EvDo req) (record_event (EvStat name) w))))
      | None \<Rightarrow>
          (Return [],
           d\<lparr>etag := Header_Get (RespHeader resp) ''ETag'',
             last_modified := Header_Get (RespHeader resp) ''Last-Modified'',
             content_sha256 := sha256_hex L (Body resp)\<rparr>,
           snd (writeResponseBody resp (filename d) mode
                  (record_event (EvDo req) (record_event (EvStat name) w)))))"
proof -
  let ?w1 = "record_event (EvStat name) w"
  have r: "resourceURLRead L d w = ensureDownloadFile L d mode ?w1"
    using assms(1-3) by (rule resourceURLRead_exists)
  have a: "fst (Do ?w1 req) = Some resp" using assms(5) by (simp add: record_event_def)
  show ?thesis
    unfolding r ensureDownloadFile_200 [OF assms(4) a assms(6)]
    by (cases "writeResponseBody resp (filename d) mode (record_event (EvDo req) ?w1)")
      (simp split: option.splits)
qed

lemma resourceURLRead_200_ok:
  assumes "idToFile L (Getwd w) (Ident d) = Inr name" and "fst (os_Stat name w) = Inr f"
    and "getFileMode d = Inr mode" and "makeRequest L ''GET'' d = Inr req"
    and "fst (Do w req) = Some resp" and "StatusCode resp = 200"
    and "\<not> Fault w SysOpenFile (filename d)" and "\<not> BodyErr resp"
    and "\<not> Fault w SysWrite (filename d)" and "\<not> Fault w SysClose (filename d)"
  shows "resourceURLRead L d w =
      (Return [],
       d\<lparr>etag := Header_Get (RespHeader resp) ''ETag'',
         last_modified := Header_Get (RespHeader resp) ''Last-Modified'',
         content_sha256 := sha256_hex L (Body resp)\<rparr>,
       w\<lparr>Files := (Files w)
            (filename d \<mapsto> (case Files w (filename d) of
                  None \<Rightarrow> \<lparr>Content = Body resp,
                           Mode = apply_umask (syscallMode (if mode = 0 then 420 else mode)) (Umask w)\<rparr>
                | Some f \<Rightarrow> f\<lparr>Content := Body resp\<rparr>)),
          Trace := Trace w @ [EvStat name, EvDo req,
             EvOpenFile (filename d) (if mode = 0 then 420 else mode),
             EvCopyBody (filename d), EvClose (filename d)]\<rparr>)"
proof -
  let ?w1 = "record_event (EvStat name) w"
  let ?w2 = "record_event (EvDo req) ?w1"
  have r: "resourceURLRead L d w = ensureDownloadFile L d mode ?w1"
    using assms(1-3) by (rule resourceURLRead_exists)
  have a: "fst (Do ?w1 req) = Some resp" using assms(5) by (simp add: record_event_def)
  have b: "\<not> Fault ?w2 SysOpenFile (filename d)" "\<not> Fault ?w2 SysWrite (filename d)"
    "\<not> Fault ?w2 SysClose (filename d)"
    using assms(7,9,10) by (simp_all add: record_event_def)
  show ?thesis
    unfolding r ensureDownloadFile_200 [OF assms(4) a assms(6)]
      writeResponseBody_ok [OF b(1) assms(8) b(2) b(3)] Umask_record_event
    by (simp add: record_event_def)
qed

text \<open>
  Claim C2, as the code has it. When the backing file exists, Read resolves the file mode and
  runs the same conditional fetch as Create: the trace continues with the stat of the file and
  with the request. A 304 answer leaves the data and every file as they were. A 200 answer
  replaces the entity tag and the last-modified time, and the body is written to the
  destination: when nothing fails, the destination holds the body and the fingerprint is
  replaced; when the destination cannot be opened, the body cannot be read or written, or the
  close fails, Read returns that error and the fingerprint is the one it was given, and a
  destination whose streaming has failed is gone when its removal does not fail.
\<close>

theorem url_read_fetches:
  assumes "idToFile L (Getwd w) (Ident d) = Inr name" and "fst (os_Stat name w) = Inr f"
    and "getFileMode d = Inr mode" and "makeRequest L ''GET'' d = Inr req"
  shows "resourceURLRead L d w = ensureDownloadFile L d mode (record_event (EvStat name) w)
    \<and> (\<exists>evs. Trace (snd (snd (resourceURLRead L d w))) = Trace w @ EvStat name # EvDo req # evs)
    \<and> (fst (Do w req) = Some resp \<and> StatusCode resp = 304 \<longrightarrow>
         resourceURLRead L d w =
           (Return [], d, record_event (EvDo req) (record_event (EvStat name) w)))
    \<and> (fst (Do w req) = Some resp \<and> StatusCode resp = 200 \<longrightarrow>
         etag (fst (snd (resourceURLRead L d w))) = Header_Get (RespHeader resp) ''ETag''
         \<and> last_modified (fst (snd (resourceURLRead L d w))) =
             Header_Get (RespHeader resp) ''Last-Modified''
         \<and> (if Fault w SysOpenFile (filename d) \<or> BodyErr resp \<or> Fault w SysWrite (filename d)
                \<or> Fault w SysClose (filename d)
            then fst (resourceURLRead L d w) =
                   Return (FromErr
                     (if Fault w SysOpenFile (filename d)
                      then CouldNotCreateDestination (filename d) EOTHER
                      else if BodyErr resp \<or> Fault w SysWrite (filename d)
                      then ErrorReadingBody (filename d)
                      else OsError EOTHER))
              \<and> fst (snd (resourceURLRead L d w)) =
                  d\<lparr>etag := Header_Get (RespHeader resp) ''ETag'',
                    last_modified := Header_Get (RespHeader resp) ''Last-Modified''\<rparr>
              \<and> content_sha256 (fst (snd (resourceURLRead L d w))) = content_sha256 d
              \<and> (\<not> Fault w SysOpenFile (filename d) \<and> (BodyErr resp \<or> Fault w SysWrite (filename d))
                   \<and> \<not> Fault w SysRemove (filename d) \<longrightarrow>
                 Files (snd (snd (resourceURLRead L d w))) (filename d) = None)
            else fst (resourceURLRead L d w) = Return []
              \<and> fst (snd (resourceURLRead L d w)) =
                  d\<lparr>etag := Header_Get (RespHeader resp) ''ETag'',
                    last_modified := Header_Get (RespHeader resp) ''Last-Modified'',
                    content_sha256 := sha256_hex L (Body resp)\<rparr>
              \<and> map_option Content (Files (snd (snd (resourceURLRead L d w))) (filename d)) =
                  Some (Body resp)
              \<and> new_events w (snd (snd (resourceURLRead L d w))) =
                  [EvStat name, EvDo req, EvOpenFile (filename d) (if mode = 0 then 420 else mode),
                   EvCopyBody (filename d), EvClose (filename d)]))"
proof -
  let ?w1 = "record_event (EvStat name) w"
  let ?w2 = "record_event (EvDo req) ?w1"
  let ?p = "filename d"
  have r: "resourceURLRead L d w = ensureDownloadFile L d mode ?w1"
    using assms(1-3) by (rule resourceURLRead_exists)
  have t: "\<exists>evs. Trace (snd (snd (resourceURLRead L d w))) = Trace w @ EvStat name # EvDo req # evs"
    using ensureDownloadFile_trace [OF assms(4), of mode ?w1]
    by (simp add: r record_event_def)
  have nm: "resourceURLRead L d w = (Return [], d, record_event (EvDo req) ?w1)"
    if "fst (Do w req) = Some resp" "StatusCode resp = 304"
  proof -
    have "fst (Do ?w1 req) = Some resp" using that by (simp add: record_event_def)
    from ensureDownloadFile_304 [OF assms(4) this that(2)] show ?thesis by (simp add: r)
  qed
  have fl: "Fault ?w2 = Fault w" by (simp add: record_event_def)
  have ok: "fst (resourceURLRead L d w) = Return []
         \<and> fst (snd (resourceURLRead L d w)) =
             d\<lparr>etag := Header_Get (RespHeader resp) ''ETag'',
               last_modified := Header_Get (RespHeader resp) ''Last-Modified'',
               content_sha256 := sha256_hex L (Body resp)\<rparr>
         \<and> map_option Content (Files (snd (snd (resourceURLRead L d w))) ?p) = Some (Body resp)
         \<and> new_events w (snd (snd (resourceURLRead L d w))) =
             [EvStat name, EvDo req, EvOpenFile ?p (if mode = 0 then 420 else mode),
              EvCopyBody ?p, EvClose ?p]"
    if "fst (Do w req) = Some resp" "StatusCode resp = 200"
      "\<not> Fault w SysOpenFile ?p" "\<not> BodyErr resp"
      "\<not> Fault w SysWrite ?p" "\<not> Fault w SysClose ?p"
    unfolding resourceURLRead_200_ok [OF assms that] by (simp add: new_events_def split: option.splits)
  have bad: "fst (resourceURLRead L d w) =
         Return (FromErr
           (if Fault w SysOpenFile ?p then CouldNotCreateDestination ?p EOTHER
            else if BodyErr resp \<or> Fault w SysWrite ?p then ErrorReadingBody ?p
            else OsError EOTHER))
       \<and> fst (snd (resourceURLRead L d w)) =
           d\<lparr>etag := Header_Get (RespHeader resp) ''ETag'',
             last_modified := Header_Get (RespHeader resp) ''Last-Modified''\<rparr>"
    if "fst (Do w req) = Some resp" "StatusCode resp = 200"
      "Fault w SysOpenFile ?p \<or> BodyErr resp \<or> Fault w SysWrite ?p \<or> Fault w SysClose ?p"
    unfolding resourceURLRead_200 [OF assms that(1,2)] writeResponseBody_fst fl
    using that(3) by auto
  have gone: "Files (snd (snd (resourceURLRead L d w))) ?p = None"
    if "fst (Do w req) = Some resp" "StatusCode resp = 200"
      "\<not> Fault w SysOpenFile ?p" "BodyErr resp \<or> Fault w SysWrite ?p" "\<not> Fault w SysRemove ?p"
  proof -
    have "Files (snd (writeResponseBody resp ?p mode ?w2)) ?p = None"
      by (rule writeResponseBody_removed) (use that in \<open>simp_all add: fl\<close>)
    then show ?thesis
      unfolding resourceURLRead_200 [OF assms that(1,2)]
      by (simp split: option.splits)
  qed
  have two: "etag (fst (snd (resourceURLRead L d w))) = Header_Get (RespHeader resp) ''ETag''
         \<and> last_modified (fst (snd (resourceURLRead L d w))) =
             Header_Get (RespHeader resp) ''Last-Modified''"
    if "fst (Do w req) = Some resp" "StatusCode resp = 200"
    unfolding resourceURLRead_200 [OF assms that]
    by (simp split: option.splits)
  show ?thesis
  proof (intro conjI impI)
    show "resourceURLRead L d w = ensureDownloadFile L d mode ?w1" by (rule r)
    show "\<exists>evs. Trace (snd (snd (resourceURLRead L d w))) = Trace w @ EvStat name # EvDo req # evs"
      by (rule t)
    show "resourceURLRead L d w = (Return [], d, record_event (EvDo req) ?w1)"
      if "fst (Do w req) = Some resp \<and> StatusCode resp = 304"
      using nm that by blast
    show "etag (fst (snd (resourceURLRead L d w))) = Header_Get (RespHeader resp) ''ETag''"
      if "fst (Do w req) = Some resp \<and> StatusCode resp = 200"
      using two that by blast
    show "last_modified (fst (snd (resourceURLRead L d w))) =
        Header_Get (RespHeader resp) ''Last-Modified''"
      if "fst (Do w req) = Some resp \<and> StatusCode resp = 200"
      using two that by blast
    show "if Fault w SysOpenFile ?p \<or> BodyErr resp \<or> Fault w SysWrite ?p \<or> Fault w SysClose ?p
        then fst (resourceURLRead L d w) =
               Return (FromErr
                 (if Fault w SysOpenFile ?p then CouldNotCreateDestination ?p EOTHER
                  else if BodyErr resp \<or> Fault w SysWrite ?p then ErrorReadingBody ?p
                  else OsError EOTHER))
          \<and> fst (snd (resourceURLRead L d w)) =
              d\<lparr>etag := Header_Get (RespHeader resp) ''ETag'',
                last_modified := Header_Get (RespHeader resp) ''Last-Modified''\<rparr>
          \<and> content_sha256 (fst (snd (resourceURLRead L d w))) = content_sha256 d
          \<and> (\<not> Fault w SysOpenFile ?p \<and> (BodyErr resp \<or> Fault w SysWrite ?p)
               \<and> \<not> Fault w SysRemove ?p \<longrightarrow>
             Files (snd (snd (resourceURLRead L d w))) ?p = None)
        else fst (resourceURLRead L d w) = Return []
          \<and> fst (snd (resourceURLRead L d w)) =
              d\<lparr>etag := Header_Get (RespHeader resp) ''ETag'',
                last_modified := Header_Get (RespHeader resp) ''Last-Modified'',
                content_sha256 := sha256_hex L (Body resp)\<rparr>
          \<and> map_option Content (Files (snd (snd (resourceURLRead L d w))) ?p) = Some (Body resp)
          \<and> new_events w (snd (snd (resourceURLRead L d w))) =
              [EvStat name, EvDo req, EvOpenFile ?p (if mode = 0 then 420 else mode),
               EvCopyBody ?p, EvClose ?p]"
      if h: "fst (Do w req) = Some resp \<and> StatusCode resp = 200"
    proof (cases "Fault w SysOpenFile ?p \<or> BodyErr resp \<or> Fault w SysWrite ?p \<or> Fault w SysClose ?p")
      case True
      have b: "fst (resourceURLRead L d w) =
             Return (FromErr
               (if Fault w SysOpenFile ?p then CouldNotCreateDestination ?p EOTHER
                else if BodyErr resp \<or> Fault w SysWrite ?p then ErrorReadingBody ?p
                else OsError EOTHER))"
        "fst (snd (resourceURLRead L d w)) =
           d\<lparr>etag := Header_Get (RespHeader resp) ''ETag'',
             last_modified := Header_Get (RespHeader resp) ''Last-Modified''\<rparr>"
        using bad h True by blast+
      have c: "content_sha256 (fst (snd (resourceURLRead L d w))) = content_sha256 d"
        by (simp add: b(2))
      have g: "\<not> Fault w SysOpenFile ?p \<and> (BodyErr resp \<or> Fault w SysWrite ?p)
               \<and> \<not> Fault w SysRemove ?p \<longrightarrow>
             Files (snd (snd (resourceURLRead L d w))) ?p = None"
        using gone h by blast
      show ?thesis
        using True b c g by (simp only: if_True)
    next
      case False
      then show ?thesis using ok h by (simp only: if_False) blast
    qed
  qed
qed

lemma makeRequest_created: "makeRequest lib0 ''GET'' created_url_data = Inr req1"
  by code_simp

lemma getFileMode_created: "getFileMode created_url_data = Inr 436"
  by (simp add: getFileMode_def GetOk_def created_url_data_def)

lemma idToFile_created:
  "idToFile lib0 (Getwd (dst_world r)) (Ident created_url_data) = Inr ''/tmp/f''"
  by (simp add: dst_world_simps created_url_data_def idToFile_tmp_f)

lemma os_Stat_dst_world:
  "fst (os_Stat ''/tmp/f'' (dst_world r)) = Inr \<lparr>Content = ''old'', Mode = 436\<rparr>"
  by (simp add: os_Stat_fst dst_world_simps)

lemma dst_world_Fault: "Fault (dst_world r) = (\<lambda>c p. False)"
  by (simp add: dst_world_def world_of_def)

theorem url_read_fetches_witness:
  "resourceURLRead lib0 created_url_data (dst_world (Some resp304, False)) =
     (Return [], created_url_data,
      record_event (EvDo req1) (record_event (EvStat ''/tmp/f'') (dst_world (Some resp304, False))))
   \<and> StatusCode resp200_cut = 200 \<and> BodyErr resp200_cut
   \<and> fst (resourceURLRead lib0 created_url_data (dst_world (Some resp200_cut, False))) =
       Return (FromErr (ErrorReadingBody ''/tmp/f''))
   \<and> etag (fst (snd (resourceURLRead lib0 created_url_data (dst_world (Some resp200_cut, False))))) =
       ''v2''
   \<and> content_sha256
        (fst (snd (resourceURLRead lib0 created_url_data (dst_world (Some resp200_cut, False))))) =
       ''sha256:old''
   \<and> Files (snd (snd (resourceURLRead lib0 created_url_data (dst_world (Some resp200_cut, False)))))
        ''/tmp/f'' = None"
proof -
  have a: "fst (Do (dst_world (Some resp304, False)) req1) = Some resp304"
    "StatusCode resp304 = 304"
    by (simp_all add: dst_world_simps resp304_def)
  have one: "resourceURLRead lib0 created_url_data (dst_world (Some resp304, False)) =
     (Return [], created_url_data,
      record_event (EvDo req1) (record_event (EvStat ''/tmp/f'') (dst_world (Some resp304, False))))"
    using url_read_fetches [OF idToFile_created os_Stat_dst_world getFileMode_created
        makeRequest_created, of "(Some resp304, False)" resp304] a
    by blast
  have b: "fst (Do (dst_world (Some resp200_cut, False)) req1) = Some resp200_cut"
    "StatusCode resp200_cut = 200" "BodyErr resp200_cut"
    by (simp_all add: dst_world_simps resp200_cut_def resp200_def)
  have h: "Header_Get (RespHeader resp200_cut) ''ETag'' = ''v2''" by code_simp
  have f: "filename created_url_data = ''/tmp/f''"
    "content_sha256 created_url_data = ''sha256:old''"
    by (simp_all add: created_url_data_def)
  have two: "fst (resourceURLRead lib0 created_url_data (dst_world (Some resp200_cut, False))) =
       Return (FromErr (ErrorReadingBody ''/tmp/f''))
   \<and> etag (fst (snd (resourceURLRead lib0 created_url_data (dst_world (Some resp200_cut, False))))) =
       ''v2''
   \<and> content_sha256
        (fst (snd (resourceURLRead lib0 created_url_data (dst_world (Some resp200_cut, False))))) =
       ''sha256:old''
   \<and> Files (snd (snd (resourceURLRead lib0 created_url_data (dst_world (Some resp200_cut, False)))))
        ''/tmp/f'' = None"
    using url_read_fetches [OF idToFile_created os_Stat_dst_world getFileMode_created
        makeRequest_created, of "(Some resp200_cut, False)" resp200_cut,
        THEN conjunct2, THEN conjunct2] b
    by (simp add: dst_world_Fault f h)
  show ?thesis
    using one two b by simp
qed

text \<open>Against claim C2 as stated: the file exists, the server answers 200, and Read has sent
  a request and has replaced the content of the file, the entity tag and the fingerprint.\<close>

theorem url_read_counterexample:
  "map_option Content (Files (dst_world (Some resp200, False)) ''/tmp/f'') = Some ''old''
   \<and> etag created_url_data = ''v1''
   \<and> content_sha256 created_url_data = ''sha256:old''
   \<and> Trace (dst_world (Some resp200, False)) = []
   \<and> Trace (snd (snd (resourceURLRead lib0 created_url_data (dst_world (Some resp200, False))))) =
       [EvStat ''/tmp/f'', EvDo req1, EvOpenFile ''/tmp/f'' 436, EvCopyBody ''/tmp/f'',
        EvClose ''/tmp/f'']
   \<and> map_option Content
        (Files (snd (snd (resourceURLRead lib0 created_url_data (dst_world (Some resp200, False)))))
          ''/tmp/f'') = Some ''hello''
   \<and> etag (fst (snd (resourceURLRead lib0 created_url_data (dst_world (Some resp200, False))))) = ''v2''
   \<and> content_sha256 (fst (snd (resourceURLRead lib0 created_url_data (dst_world (Some resp200, False)))))
       = ''sha256:hello''"
proof -
  have a: "fst (Do (dst_world (Some resp200, False)) req1) = Some resp200"
    "StatusCode resp200 = 200" "\<not> BodyErr resp200"
    "\<not> Fault (dst_world (Some resp200, False)) SysOpenFile (filename created_url_data)"
    "\<not> Fault (dst_world (Some resp200, False)) SysWrite (filename created_url_data)"
    "\<not> Fault (dst_world (Some resp200, False)) SysClose (filename created_url_data)"
    by (simp_all add: dst_world_simps resp200_def)
  have h: "Header_Get (RespHeader resp200) ''ETag'' = ''v2''" by code_simp
  have f: "filename created_url_data = ''/tmp/f''" "etag created_url_data = ''v1''"
    "content_sha256 created_url_data = ''sha256:old''" "Body resp200 = ''hello''"
    by (simp_all add: created_url_data_def resp200_def)
  show ?thesis
    unfolding resourceURLRead_200_ok [OF idToFile_created os_Stat_dst_world getFileMode_created
        makeRequest_created a(1,2,4,3,5,6)]
    by (simp add: dst_world_simps f h lib0_def)
qed

section \<open>The classification of error responses\<close>

lemma diagResponseError_fst:
  "fst (diagResponseError L resp summary w) =
     (if isTextual L (Header_Get (RespHeader resp) ''Content-Type'') \<and> BodyErr resp
      then [\<lparr>Severity = Warning, Summary = Msg ''could not read response body'',
              Detail = BodyReadError\<rparr>]
      else [])
     @ [\<lparr>Severity = Error, Summary = Msg summary,
          Detail = Msg (if isTextual L (Header_Get (RespHeader resp) ''Content-Type'')
                        then (if BodyErr resp then [] else Body resp)
                        else [])\<rparr>]"
  by (simp add: diagResponseError_def)

lemma diagResponseError_Files: "Files (snd (diagResponseError L resp summary w)) = Files w"
  by (simp add: diagResponseError_def record_event_def)

lemma summary_401_authorization: "Contains summary_401 ''authorization''"
  by code_simp

lemma summary_401_not_authorized: "\<not> Contains summary_401 ''authorized''"
  by code_simp

lemma summary_403_credentials: "Contains summary_403 ''credentials''"
  by code_simp

lemma summary_401_403: "summary_401 \<noteq> summary_403"
  by (simp add: summary_401_def summary_403_def)

text \<open>
  Claim C7, as the code has it. A 401 response yields an error whose summary is the fixed text
  about authorization (it contains \<open>authorization\<close>), a 403 response yields an error with a
  different summary, which contains \<open>credentials\<close>. In both cases the detail is the body of
  the response when its content type is textual and the body can be read, and is empty
  otherwise (with a warning before the error when a textual body cannot be read); the data and
  the files stay as they were.
\<close>

theorem http_error_classification:
  assumes "makeRequest L ''GET'' d = Inr req" and "fst (Do w req) = Some resp"
    and "StatusCode resp = 401 \<or> StatusCode resp = 403"
  shows "fst (ensureDownloadFile L d mode w) =
      Return
       ((if isTextual L (Header_Get (RespHeader resp) ''Content-Type'') \<and> BodyErr resp
         then [\<lparr>Severity = Warning, Summary = Msg ''could not read response body'',
                 Detail = BodyReadError\<rparr>]
         else [])
        @ [\<lparr>Severity = Error,
             Summary = Msg (if StatusCode resp = 401 then summary_401 else summary_403),
             Detail = Msg (if isTextual L (Header_Get (RespHeader resp) ''Content-Type'')
                           then (if BodyErr resp then [] else Body resp)
                           else [])\<rparr>])
    \<and> fst (snd (ensureDownloadFile L d mode w)) = d
    \<and> Files (snd (snd (ensureDownloadFile L d mode w))) = Files w
    \<and> Contains summary_401 ''authorization''
    \<and> Contains summary_403 ''credentials''
    \<and> summary_401 \<noteq> summary_403"
proof -
  have s: "StatusCode resp \<noteq> 304" "StatusCode resp \<noteq> 200"
    using assms(3) by auto
  have "(if StatusCode resp = 401 then summary_401
         else if StatusCode resp = 403 then summary_403
         else summary_default (Status resp)) =
        (if StatusCode resp = 401 then summary_401 else summary_403)"
    using assms(3) by auto
  then show ?thesis
    unfolding ensureDownloadFile_error_status [OF assms(1,2) s]
    by (simp add: diagResponseError_fst diagResponseError_Files record_event_def
        summary_401_authorization summary_403_credentials summary_401_403)
qed

lemma isTextual_lib0:
  "isTextual lib0 ''text/plain''" "\<not> isTextual lib0 ''application/octet-stream''"
  by code_simp+

lemma Header_Get_resp401: "Header_Get (RespHeader (resp401 ct body)) ''Content-Type'' = ct"
proof -
  have "CanonicalMIMEHeaderKey ''Content-Type'' = ''Content-Type''" by code_simp
  then show ?thesis by (simp add: Header_Get_def resp401_def)
qed

theorem http_error_classification_witness:
  "fst (ensureDownloadFile lib0 (url_data []) 436
          (world_of [] (Some (resp401 ''text/plain'' ''not authorized''), False))) =
     Return [\<lparr>Severity = Error, Summary = Msg summary_401, Detail = Msg ''not authorized''\<rparr>]"
proof -
  have a: "fst (Do (world_of [] (Some (resp401 ''text/plain'' ''not authorized''), False)) req0) =
      Some (resp401 ''text/plain'' ''not authorized'')"
    by (simp add: world_of_simps)
  have b: "StatusCode (resp401 ''text/plain'' ''not authorized'') = 401
      \<or> StatusCode (resp401 ''text/plain'' ''not authorized'') = 403"
    by (simp add: resp401_def)
  have c: "StatusCode (resp401 ''text/plain'' ''not authorized'') = 401"
    "\<not> BodyErr (resp401 ''text/plain'' ''not authorized'')"
    "Body (resp401 ''text/plain'' ''not authorized'') = ''not authorized''"
    by (simp_all add: resp401_def)
  show ?thesis
    using http_error_classification [OF makeRequest_url_data a b, of 436] c
    by (simp add: Header_Get_resp401 isTextual_lib0)
qed

text \<open>Against claim C7 as stated: a 401 response that is not textual yields one error, and
  neither its summary nor its detail contains \<open>authorized\<close>.\<close>

theorem unauthorized_message_counterexample:
  "fst (ensureDownloadFile lib0 (url_data []) 436
          (world_of [] (Some (resp401 ''application/octet-stream'' ''denied''), False))) =
     Return [\<lparr>Severity = Error, Summary = Msg summary_401, Detail = Msg []\<rparr>]
   \<and> \<not> Contains summary_401 ''authorized''
   \<and> \<not> Contains [] ''authorized''"
proof -
  have a: "fst (Do (world_of [] (Some (resp401 ''application/octet-stream'' ''denied''), False)) req0) =
      Some (resp401 ''application/octet-stream'' ''denied'')"
    by (simp add: world_of_simps)
  have s: "StatusCode (resp401 ''application/octet-stream'' ''denied'') \<noteq> 304"
    "StatusCode (resp401 ''application/octet-stream'' ''denied'') \<noteq> 200"
    "StatusCode (resp401 ''application/octet-stream'' ''denied'') = 401"
    by (simp_all add: resp401_def)
  show ?thesis
    unfolding ensureDownloadFile_error_status [OF makeRequest_url_data a s(1,2)]
    by (simp add: s(3) diagResponseError_fst Header_Get_resp401 isTextual_lib0
        summary_401_not_authorized)
qed

section \<open>The request\<close>

lemma map_of_Header_Set:
  "map_of (Header_Set k v h) K =
     (if K = CanonicalMIMEHeaderKey k then Some [v] else map_of h K)"
  by (simp add: Header_Set_def update_conv')

lemma map_of_fold_Header_Set:
  "map_of (fold (\<lambda>(k, v) h. Header_Set k v h) m h0) K =
     (case map_of (rev (map (\<lambda>(k, v). (CanonicalMIMEHeaderKey k, [v])) m)) K of
        None \<Rightarrow> map_of h0 K
      | Some x \<Rightarrow> Some x)"
proof (induction m arbitrary: h0)
  case Nil
  show ?case by simp
next
  case (Cons a m)
  obtain k v where a: "a = (k, v)" by (cases a)
  show ?case
    by (simp add: a Cons.IH map_of_Header_Set map_of_append map_add_def split: option.splits)
qed

lemma canonical_conditional_keys:
  "CanonicalMIMEHeaderKey ''If-None-Match'' = ''If-None-Match''"
  "CanonicalMIMEHeaderKey ''If-Modified-Since'' = ''If-Modified-Since''"
  by code_simp+

text \<open>
  Claim C6, as the code has it. The request carries the method and the URL; every configured
  header is set under its canonical key with its value unchanged, one value per key (of two
  configured keys with the same canonical form the one visited last stays); then at most one
  conditional header is set, and it replaces a configured header of the same name:
  \<open>If-None-Match\<close> with the cached entity tag when that is known, otherwise
  \<open>If-Modified-Since\<close> with the cached time when that is known, otherwise none.
\<close>

theorem conditional_request:
  assumes "makeRequest L method d = Inr req"
  shows "Method req = method \<and> ReqURL req = url d
    \<and> map_of (ReqHeader req) K =
        (if K = ''If-None-Match'' \<and> etag d \<noteq> [] then Some [etag d]
         else if K = ''If-Modified-Since'' \<and> etag d = [] \<and> last_modified d \<noteq> []
           then Some [last_modified d]
         else map_of (rev (map (\<lambda>(k, v). (CanonicalMIMEHeaderKey k, [v])) (headers d))) K)"
  using assms
  by (auto simp: makeRequest_def http_NewRequest_def GetOk_def Let_def map_of_Header_Set
      map_of_fold_Header_Set canonical_conditional_keys
      split: option.splits if_splits)

theorem conditional_request_witness:
  "map_of (ReqHeader req1) ''If-None-Match'' = Some [''v1'']
   \<and> map_of (ReqHeader req1) ''If-Modified-Since'' = None
   \<and> map_of (ReqHeader req1) ''Authorization'' = Some [''Bearer secret'']"
proof -
  have c: "CanonicalMIMEHeaderKey ''authorization'' = ''Authorization''" by code_simp
  have e: "etag created_url_data = ''v1''"
    "headers created_url_data = [(''authorization'', ''Bearer secret'')]"
    by (simp_all add: created_url_data_def)
  show ?thesis
    using conditional_request [OF makeRequest_created, of "''If-None-Match''"]
      conditional_request [OF makeRequest_created, of "''If-Modified-Since''"]
      conditional_request [OF makeRequest_created, of "''Authorization''"]
    by (simp add: e c)
qed

text \<open>Against claim C6 as stated: with no cached entity tag and no cached time the request
  carries no conditional header; the configured key \<open>authorization\<close> is sent in its canonical
  form.\<close>

theorem conditional_request_counterexample:
  "etag (url_data []) = [] \<and> last_modified (url_data []) = []
   \<and> headers (url_data []) = [(''authorization'', ''Bearer secret'')]
   \<and> makeRequest lib0 ''GET'' (url_data []) = Inr req0
   \<and> ReqHeader req0 = [(''Authorization'', [''Bearer secret''])]"
  by (simp add: makeRequest_url_data) (simp add: url_data_def req0_def)

section \<open>A copy that fails\<close>

lemma copyFile_stream_failure:
  assumes "fst (os_Open src w) = Inr fd" and "mode = 0 \<longrightarrow> \<not> Fault w SysFstat src"
    and "\<not> Fault w SysOpenFile dst" and "Fault w SysRead src \<or> Fault w SysWrite dst"
  shows "copyFile src dst mode w =
     (Some (ErrorCopying src dst),
      w\<lparr>Files :=
           (if Fault w SysRemove dst
            then (Files w)
              (dst \<mapsto> (case Files w dst of
                         None \<Rightarrow> \<lparr>Content = take (Partial w) (if src = dst then [] else Content fd),
                                  Mode = apply_umask (syscallMode (if mode = 0 then Mode fd else mode))
                                           (Umask w)\<rparr>
                       | Some f \<Rightarrow> f\<lparr>Content := take (Partial w) (if src = dst then [] else Content fd)\<rparr>))
            else (Files w)(dst := None)),
         Trace := Trace w @ [EvOpen src] @ (if mode = 0 then [EvFstat src] else [])
                  @ [EvOpenFile dst (if mode = 0 then Mode fd else mode), EvCopy src dst,
                     EvClose dst, EvRemove dst, EvClose dst]\<rparr>)"
  using assms
  by (auto simp: copyFile_def os_Open_def File_Stat_def os_OpenFile_def io_Copy_def
      File_Write_def File_Close_def os_Remove_def record_event_def Let_def
      split: if_splits option.splits)

lemma writeResponseBody_stream_failure:
  assumes "\<not> Fault w SysOpenFile p" and "BodyErr resp \<or> Fault w SysWrite p"
  shows "writeResponseBody resp p mode w =
     (Some (ErrorReadingBody p),
      w\<lparr>Files :=
           (if Fault w SysRemove p
            then (Files w)
              (p \<mapsto> (case Files w p of
                       None \<Rightarrow> \<lparr>Content = take (Partial w) (Body resp),
                                Mode = apply_umask (syscallMode (if mode = 0 then 420 else mode)) (Umask w)\<rparr>
                     | Some f \<Rightarrow> f\<lparr>Content := take (Partial w) (Body resp)\<rparr>))
            else (Files w)(p := None)),
         Trace := Trace w @ [EvOpenFile p (if mode = 0 then 420 else mode), EvCopyBody p,
                             EvClose p, EvRemove p, EvClose p]\<rparr>)"
  using assms
  by (auto simp: writeResponseBody_def os_OpenFile_def io_Copy_body_def
      File_Write_def File_Close_def os_Remove_def record_event_def Let_def
      split: if_splits option.splits)

text \<open>
  Claim C5, as the code has it. When the destination has been opened and the streaming copy
  fails, both engines return the copy error after they have closed the destination and called
  \<^verbatim>\<open>os.Remove\<close> on it; the error of that call is dropped. When the removal does not fail, no
  file is left at the destination.
\<close>

theorem failed_copy_cleanup:
  "(fst (os_Open src w) = Inr fd \<and> (mode = 0 \<longrightarrow> \<not> Fault w SysFstat src)
      \<and> \<not> Fault w SysOpenFile dst \<and> (Fault w SysRead src \<or> Fault w SysWrite dst) \<longrightarrow>
    fst (copyFile src dst mode w) = Some (ErrorCopying src dst)
    \<and> new_events w (snd (copyFile src dst mode w)) =
        [EvOpen src] @ (if mode = 0 then [EvFstat src] else [])
        @ [EvOpenFile dst (if mode = 0 then Mode fd else mode), EvCopy src dst,
           EvClose dst, EvRemove dst, EvClose dst]
    \<and> (\<not> Fault w SysRemove dst \<longrightarrow> Files (snd (copyFile src dst mode w)) dst = None))
   \<and> (\<not> Fault w SysOpenFile p \<and> (BodyErr resp \<or> Fault w SysWrite p) \<longrightarrow>
    fst (writeResponseBody resp p mode w) = Some (ErrorReadingBody p)
    \<and> new_events w (snd (writeResponseBody resp p mode w)) =
        [EvOpenFile p (if mode = 0 then 420 else mode), EvCopyBody p,
         EvClose p, EvRemove p, EvClose p]
    \<and> (\<not> Fault w SysRemove p \<longrightarrow> Files (snd (writeResponseBody resp p mode w)) p = None))"
proof -
  have a: "fst (copyFile src dst mode w) = Some (ErrorCopying src dst)
    \<and> new_events w (snd (copyFile src dst mode w)) =
        [EvOpen src] @ (if mode = 0 then [EvFstat src] else [])
        @ [EvOpenFile dst (if mode = 0 then Mode fd else mode), EvCopy src dst,
           EvClose dst, EvRemove dst, EvClose dst]
    \<and> (\<not> Fault w SysRemove dst \<longrightarrow> Files (snd (copyFile src dst mode w)) dst = None)"
    if "fst (os_Open src w) = Inr fd" "mode = 0 \<longrightarrow> \<not> Fault w SysFstat src"
      "\<not> Fault w SysOpenFile dst" "Fault w SysRead src \<or> Fault w SysWrite dst"
    unfolding copyFile_stream_failure [OF that] by (simp add: new_events_def)
  have b: "fst (writeResponseBody resp p mode w) = Some (ErrorReadingBody p)
    \<and> new_events w (snd (writeResponseBody resp p mode w)) =
        [EvOpenFile p (if mode = 0 then 420 else mode), EvCopyBody p,
         EvClose p, EvRemove p, EvClose p]
    \<and> (\<not> Fault w SysRemove p \<longrightarrow> Files (snd (writeResponseBody resp p mode w)) p = None)"
    if "\<not> Fault w SysOpenFile p" "BodyErr resp \<or> Fault w SysWrite p"
    unfolding writeResponseBody_stream_failure [OF that] by (simp add: new_events_def)
  show ?thesis using a b by auto
qed

lemma stuck_world_simps:
  "Files stuck_world = Files src_world"
  "Fault stuck_world c p = (if p = ''/dst'' then (c = SysWrite \<or> c = SysRemove) else False)"
  "Trace stuck_world = []"
  "Partial stuck_world = 1"
  "Umask stuck_world = 18"
  by (simp_all add: stuck_world_def src_world_def world_of_def)

lemma src_world_Partial: "Partial src_world = 1"
  by (simp add: src_world_def world_of_def)

theorem failed_copy_cleanup_witness:
  "fst (copyFile ''/src'' ''/dst'' 420 (src_world\<lparr>Fault := (\<lambda>c p. c = SysWrite)\<rparr>)) =
     Some (ErrorCopying ''/src'' ''/dst'')
   \<and> Files (snd (copyFile ''/src'' ''/dst'' 420 (src_world\<lparr>Fault := (\<lambda>c p. c = SysWrite)\<rparr>))) ''/dst'' = None
   \<and> fst (writeResponseBody resp200 ''/dst'' 420 (src_world\<lparr>Fault := (\<lambda>c p. c = SysWrite)\<rparr>)) =
       Some (ErrorReadingBody ''/dst'')
   \<and> Files (snd (writeResponseBody resp200 ''/dst'' 420 (src_world\<lparr>Fault := (\<lambda>c p. c = SysWrite)\<rparr>)))
       ''/dst'' = None"
proof -
  let ?w = "src_world\<lparr>Fault := (\<lambda>c p. c = SysWrite)\<rparr>"
  have a: "fst (os_Open ''/src'' ?w) = Inr \<lparr>Content = ''foo'', Mode = 420\<rparr>
      \<and> ((420::nat) = 0 \<longrightarrow> \<not> Fault ?w SysFstat ''/src'')
      \<and> \<not> Fault ?w SysOpenFile ''/dst'' \<and> (Fault ?w SysRead ''/src'' \<or> Fault ?w SysWrite ''/dst'')"
    by (simp add: os_Open_def src_world_simps)
  have b: "\<not> Fault ?w SysOpenFile ''/dst'' \<and> (BodyErr resp200 \<or> Fault ?w SysWrite ''/dst'')"
    by simp
  have c: "\<not> Fault ?w SysRemove ''/dst''"
    by simp
  show ?thesis
    using failed_copy_cleanup [where src = "''/src''" and w = ?w
        and fd = "\<lparr>Content = ''foo'', Mode = 420\<rparr>" and mode = 420 and dst = "''/dst''"
        and p = "''/dst''" and resp = resp200] a b c
    by blast
qed

text \<open>Against claim C5 as stated: the write to the destination fails after one byte and the
  removal fails too; Create returns the copy error and the destination holds the first byte
  of the source.\<close>

theorem failed_copy_counterexample:
  "map_option Content (Files stuck_world ''/src'') = Some ''foo''
   \<and> Files stuck_world ''/dst'' = None
   \<and> fst (resourceFileCreate lib0 (file_data []) stuck_world) =
       FromErr (ErrorCopying ''/src'' ''/dst'')
   \<and> Files (snd (snd (resourceFileCreate lib0 (file_data []) stuck_world))) ''/dst'' =
       Some \<lparr>Content = ''f'', Mode = 420\<rparr>"
proof -
  let ?d = "file_data []"
  let ?w1 = "snd (hashFile lib0 (source ?d) stuck_world)"
  let ?w2 = "snd (hashFile lib0 (destination ?d) ?w1)"
  have s: "source ?d = ''/src''" "destination ?d = ''/dst''" "file_mode ?d = []"
    by (simp_all add: file_data_def)
  have h1: "fst (hashFile lib0 (source ?d) stuck_world) = Inr ''sha256:foo''"
    by (simp add: s hashFile_fst stuck_world_simps src_world_simps lib0_def)
  have h2: "fst (hashFile lib0 (destination ?d) ?w1) \<noteq> Inr ''sha256:foo''"
    by (simp add: s hashFile_fst hashFile_snd stuck_world_simps src_world_simps)
  have m: "if file_mode ?d = [] then (0::nat) = 0 else ParseUint (file_mode ?d) = Inr 0"
    by (simp add: s)
  have w2: "Files ?w2 = Files src_world"
    "Fault ?w2 = (\<lambda>c p. if p = ''/dst'' then (c = SysWrite \<or> c = SysRemove) else False)"
    "Partial ?w2 = 1" "Umask ?w2 = 18"
    by (simp_all add: hashFile_snd stuck_world_simps fun_eq_iff)
  have o: "fst (os_Open ''/src'' ?w2) = Inr \<lparr>Content = ''foo'', Mode = 420\<rparr>"
    by (simp add: os_Open_def w2 src_world_simps)
  have f: "(0::nat) = 0 \<longrightarrow> \<not> Fault ?w2 SysFstat ''/src''" "\<not> Fault ?w2 SysOpenFile ''/dst''"
    "Fault ?w2 SysRead ''/src'' \<or> Fault ?w2 SysWrite ''/dst''"
    by (simp_all add: w2)
  have c: "fst (copyFile ''/src'' ''/dst'' 0 ?w2) = Some (ErrorCopying ''/src'' ''/dst'')"
    "Files (snd (copyFile ''/src'' ''/dst'' 0 ?w2)) ''/dst'' = Some \<lparr>Content = ''f'', Mode = 420\<rparr>"
    unfolding copyFile_stream_failure [OF o f]
    by (simp_all add: w2 src_world_simps syscallMode_def apply_umask_022)
  have e: "ensureCopyFile lib0 ?d stuck_world =
      (FromErr (ErrorCopying ''/src'' ''/dst''), ?d, snd (copyFile ''/src'' ''/dst'' 0 ?w2))"
    using c(1)
    by (cases "copyFile ''/src'' ''/dst'' 0 ?w2")
      (simp add: ensureCopyFile_copy [OF h1 h2 m] s)
  have "resourceFileCreate lib0 ?d stuck_world = ensureCopyFile lib0 ?d stuck_world"
    by (rule resourceFileCreate_error) (simp add: e HasError_FromErr)
  then show ?thesis
    by (simp add: e c stuck_world_simps src_world_simps)
qed

section \<open>Create twice: the byte copy and the fingerprint attribute\<close>

lemma os_Chmod_snd:
  "snd (os_Chmod p m w) =
     (if Fault w SysChmod p \<or> Files w p = None then w\<lparr>Trace := Trace w @ [EvChmod p m]\<rparr>
      else w\<lparr>Files := (Files w)(p := map_option (\<lambda>f. f\<lparr>Mode := syscallMode m\<rparr>) (Files w p)),
             Trace := Trace w @ [EvChmod p m]\<rparr>)"
  by (auto simp: os_Chmod_def record_event_def split: option.splits)

lemma os_Chmod_fst:
  "fst (os_Chmod p m w) =
     (if Fault w SysChmod p then Some EOTHER
      else (case Files w p of None \<Rightarrow> Some ENOENT | Some f \<Rightarrow> None))"
  by (simp add: os_Chmod_def split: option.splits)

lemma os_Chmod_frame:
  "map_option Content (Files (snd (os_Chmod q m v)) p) = map_option Content (Files v p)"
  "Fault (snd (os_Chmod q m v)) = Fault v"
  "Trace (snd (os_Chmod q m v)) = Trace v @ [EvChmod q m]"
  by (cases "Files v q"; simp add: os_Chmod_snd)+

lemma ensureFileMode_explicit:
  assumes "fst (os_Stat (destination d) w) = Inr st" and "file_mode d \<noteq> []"
    and "ParseUint (file_mode d) = Inr m"
  shows "ensureFileMode d w =
     (if m = Mode st then ([], snd (os_Stat (destination d) w))
      else (case fst (os_Chmod (destination d) m (snd (os_Stat (destination d) w))) of
              Some e \<Rightarrow> FromErr (FailedChmod m (destination d) e)
            | None \<Rightarrow> [],
            snd (os_Chmod (destination d) m (snd (os_Stat (destination d) w)))))"
  using assms
  by (cases "os_Stat (destination d) w";
      cases "os_Chmod (destination d) m (snd (os_Stat (destination d) w))")
    (simp add: ensureFileMode_def GetOk_def split: option.splits)

lemma ensureFileMode_source_error:
  assumes "fst (os_Stat (destination d) w) = Inr st" and "file_mode d = []"
    and "fst (os_Stat (source d) (snd (os_Stat (destination d) w))) = Inl e"
  shows "ensureFileMode d w =
     (FromErr (CouldNotStatSource (destination d) e),
      snd (os_Stat (source d) (snd (os_Stat (destination d) w))))"
  using assms
  by (cases "os_Stat (destination d) w";
      cases "os_Stat (source d) (snd (os_Stat (destination d) w))")
    (simp add: ensureFileMode_def GetOk_def)

lemma ensureFileMode_mirror:
  assumes "fst (os_Stat (destination d) w) = Inr st" and "file_mode d = []"
    and "fst (os_Stat (source d) (snd (os_Stat (destination d) w))) = Inr ss"
  shows "ensureFileMode d w =
     (if Mode ss = Mode st then ([], snd (os_Stat (source d) (snd (os_Stat (destination d) w))))
      else (case fst (os_Chmod (destination d) (Mode ss)
                       (snd (os_Stat (source d) (snd (os_Stat (destination d) w))))) of
              Some e \<Rightarrow> FromErr (FailedChmod (Mode ss) (destination d) e)
            | None \<Rightarrow> [],
            snd (os_Chmod (destination d) (Mode ss)
                  (snd (os_Stat (source d) (snd (os_Stat (destination d) w)))))))"
  using assms
  by (cases "os_Stat (destination d) w";
      cases "os_Stat (source d) (snd (os_Stat (destination d) w))";
      cases "os_Chmod (destination d) (Mode ss)
               (snd (os_Stat (source d) (snd (os_Stat (destination d) w))))")
    (simp add: ensureFileMode_def GetOk_def split: option.splits)

lemma ensureFileMode_frame:
  "map_option Content (Files (snd (ensureFileMode d w)) p) = map_option Content (Files w p)
   \<and> Fault (snd (ensureFileMode d w)) = Fault w
   \<and> (\<exists>evs. Trace (snd (ensureFileMode d w)) = Trace w @ evs \<and> filter is_copy_event evs = [])"
proof (cases "fst (os_Stat (destination d) w)")
  case (Inl e)
  show ?thesis
    unfolding ensureFileMode_stat_error [OF Inl]
    by (simp add: os_Stat_snd is_copy_event_def)
next
  case (Inr st)
  show ?thesis
  proof (cases "file_mode d = []")
    case False
    show ?thesis
    proof (cases "ParseUint (file_mode d)")
      case (Inl e)
      show ?thesis
        unfolding ensureFileMode_invalid [OF Inr False Inl]
        by (simp add: os_Stat_snd is_copy_event_def)
    next
      case m: (Inr m)
      show ?thesis
        unfolding ensureFileMode_explicit [OF Inr False m]
        by (simp add: os_Chmod_frame os_Stat_snd is_copy_event_def)
    qed
  next
    case True
    show ?thesis
    proof (cases "fst (os_Stat (source d) (snd (os_Stat (destination d) w)))")
      case (Inl e)
      show ?thesis
        unfolding ensureFileMode_source_error [OF Inr True Inl]
        by (simp add: os_Stat_snd is_copy_event_def)
    next
      case ss: (Inr ss)
      show ?thesis
        unfolding ensureFileMode_mirror [OF Inr True ss]
        by (simp add: os_Chmod_frame os_Stat_snd is_copy_event_def)
    qed
  qed
qed

lemma copyFile_frame:
  "Fault (snd (copyFile src dst mode w)) = Fault w"
  "p \<noteq> dst \<Longrightarrow> Files (snd (copyFile src dst mode w)) p = Files w p"
  by (auto simp: copyFile_def os_Open_def File_Stat_def os_OpenFile_def io_Copy_def
      File_Write_def File_Close_def os_Remove_def record_event_def Let_def
      split: if_splits option.splits)

lemma copyFile_fst: "fst (copyFile src dst mode w) = None \<longleftrightarrow> copy_succeeds src dst mode w"
  by (auto simp: copyFile_def copy_succeeds_def os_Open_def File_Stat_def os_OpenFile_def
      io_Copy_def File_Write_def File_Close_def os_Remove_def record_event_def Let_def
      split: if_splits option.splits)

lemma hashFile_frame:
  "Files (snd (hashFile L p w)) = Files w" "Fault (snd (hashFile L p w)) = Fault w"
  by (simp_all add: hashFile_snd)

lemma hashFile_fst_cong:
  assumes "Fault w' = Fault w"
    and "map_option Content (Files w' p) = map_option Content (Files w p)"
  shows "fst (hashFile L p w') = fst (hashFile L p w)"
  using assms by (auto simp: hashFile_fst split: option.splits)

lemma hashFile_fst_after:
  "fst (hashFile L p (snd (hashFile L q w))) = fst (hashFile L p w)"
  by (rule hashFile_fst_cong) (simp_all add: hashFile_frame)

lemma copy_succeeds_cong:
  assumes "Fault w' = Fault w" and "Files w' src = None \<longleftrightarrow> Files w src = None"
  shows "copy_succeeds src dst mode w' = copy_succeeds src dst mode w"
  using assms by (simp add: copy_succeeds_def)

lemma ensureCopyFile_summary:
  "fst (snd (ensureCopyFile L d w)) =
     (if copies L d w then d\<lparr>content_sha256 := projr (fst (hashFile L (source d) w))\<rparr> else d)
   \<and> Fault (snd (snd (ensureCopyFile L d w))) = Fault w
   \<and> map_option Content (Files (snd (snd (ensureCopyFile L d w))) (source d)) =
       map_option Content (Files w (source d))
   \<and> (fst (hashFile L (destination d) w) = fst (hashFile L (source d) w) \<longrightarrow>
       map_option Content (Files (snd (snd (ensureCopyFile L d w))) p) =
         map_option Content (Files w p))"
proof (cases "fst (hashFile L (source d) w)")
  case (Inl e)
  show ?thesis
    unfolding ensureCopyFile_source_error [OF Inl]
    by (simp add: copies_def Inl hashFile_frame)
next
  case (Inr h)
  let ?w1 = "snd (hashFile L (source d) w)"
  let ?w2 = "snd (hashFile L (destination d) ?w1)"
  have w2: "Files ?w2 = Files w" "Fault ?w2 = Fault w"
    by (simp_all add: hashFile_frame)
  show ?thesis
  proof (cases "fst (hashFile L (destination d) ?w1) = Inr h")
    case True
    then have m: "fst (hashFile L (destination d) w) = Inr h"
      by (simp add: hashFile_fst_after)
    show ?thesis
      unfolding ensureCopyFile_match [OF Inr True]
      using ensureFileMode_frame [of d ?w2]
      by (simp add: copies_def Inr m w2)
  next
    case False
    then have m: "fst (hashFile L (destination d) w) \<noteq> Inr h"
      by (simp add: hashFile_fst_after)
    have neq: "source d \<noteq> destination d"
      using Inr m by auto
    show ?thesis
    proof (cases "resolved_mode d")
      case None
      then obtain e where bad: "file_mode d \<noteq> []" "ParseUint (file_mode d) = Inl e"
        by (auto simp: resolved_mode_def split: if_splits sum.splits)
      show ?thesis
        unfolding ensureCopyFile_invalid [OF Inr False bad]
        by (simp add: copies_def Inr m None w2)
    next
      case (Some mode)
      then have r: "if file_mode d = [] then mode = 0 else ParseUint (file_mode d) = Inr mode"
        by (auto simp: resolved_mode_def split: if_splits sum.splits)
      have c: "copies L d w = (fst (copyFile (source d) (destination d) mode ?w2) = None)"
        by (simp add: copies_def Inr m Some copyFile_fst copy_succeeds_cong [of ?w2 w] w2)
      show ?thesis
        unfolding ensureCopyFile_copy [OF Inr False r]
        by (cases "copyFile (source d) (destination d) mode ?w2")
          (auto simp: c Inr m copyFile_frame [where w = ?w2] w2 neq
            dest: arg_cong [where f = snd])
    qed
  qed
qed

lemma resourceFileCreate_summary:
  "snd (snd (resourceFileCreate L d w)) = snd (snd (ensureCopyFile L d w))
   \<and> content_sha256 (fst (snd (resourceFileCreate L d w))) =
       content_sha256 (fst (snd (ensureCopyFile L d w)))
   \<and> source (fst (snd (resourceFileCreate L d w))) = source (fst (snd (ensureCopyFile L d w)))
   \<and> destination (fst (snd (resourceFileCreate L d w))) =
       destination (fst (snd (ensureCopyFile L d w)))
   \<and> file_mode (fst (snd (resourceFileCreate L d w))) =
       file_mode (fst (snd (ensureCopyFile L d w)))"
proof -
  obtain ds dE wE where e: "ensureCopyFile L d w = (ds, dE, wE)"
    by (cases "ensureCopyFile L d w")
  show ?thesis
    by (cases "fileToID (Getwd wE) (destination dE)")
      (simp_all add: resourceFileCreate_def e)
qed

lemma content_sha256_summary:
  "content_sha256 (fst (snd (ensureCopyFile L d w))) =
     (if copies L d w then projr (fst (hashFile L (source d) w)) else content_sha256 d)"
  using ensureCopyFile_summary [of L d w] by simp

lemma hashFile_source_after:
  "fst (hashFile L (source d) (snd (snd (ensureCopyFile L d w)))) = fst (hashFile L (source d) w)"
  using ensureCopyFile_summary [of L d w] by (intro hashFile_fst_cong) simp_all

lemma hashFile_trace:
  "\<exists>evs. Trace (snd (hashFile L p w)) = Trace w @ evs \<and> filter is_copy_event evs = []"
  by (simp add: hashFile_snd is_copy_event_def)

lemma ensureCopyFile_match_trace:
  assumes "fst (hashFile L (source d) w) = Inr h" and "fst (hashFile L (destination d) w) = Inr h"
  shows "filter is_copy_event (new_events w (snd (snd (ensureCopyFile L d w)))) = []"
proof -
  let ?w1 = "snd (hashFile L (source d) w)"
  let ?w2 = "snd (hashFile L (destination d) ?w1)"
  have m: "fst (hashFile L (destination d) ?w1) = Inr h"
    using assms(2) by (simp add: hashFile_fst_after)
  obtain e1 where e1: "Trace ?w1 = Trace w @ e1" "filter is_copy_event e1 = []"
    using hashFile_trace by blast
  obtain e2 where e2: "Trace ?w2 = Trace ?w1 @ e2" "filter is_copy_event e2 = []"
    using hashFile_trace by blast
  obtain e3 where e3: "Trace (snd (ensureFileMode d ?w2)) = Trace ?w2 @ e3"
    "filter is_copy_event e3 = []"
    using ensureFileMode_frame [of d ?w2] by blast
  show ?thesis
    unfolding ensureCopyFile_match [OF assms(1) m]
    by (simp add: new_events_def e1 e2 e3)
qed

lemma copyFile_success:
  assumes "fst (os_Open src w) = Inr fd" and "mode = 0 \<longrightarrow> \<not> Fault w SysFstat src"
    and "\<not> Fault w SysOpenFile dst" and "\<not> Fault w SysRead src" and "\<not> Fault w SysWrite dst"
    and "\<not> Fault w SysClose dst" and "src \<noteq> dst"
  shows "copyFile src dst mode w =
     (None,
      w\<lparr>Files :=
           (Files w)
             (dst \<mapsto> (case Files w dst of
                        None \<Rightarrow> \<lparr>Content = Content fd,
                                 Mode = apply_umask (syscallMode (if mode = 0 then Mode fd else mode))
                                          (Umask w)\<rparr>
                      | Some f \<Rightarrow> f\<lparr>Content := Content fd\<rparr>)),
         Trace := Trace w @ [EvOpen src] @ (if mode = 0 then [EvFstat src] else [])
                  @ [EvOpenFile dst (if mode = 0 then Mode fd else mode), EvCopy src dst,
                     EvClose dst]\<rparr>)"
  using assms
  by (auto simp: copyFile_def os_Open_def File_Stat_def os_OpenFile_def io_Copy_def
      File_Write_def File_Close_def os_Remove_def record_event_def Let_def
      split: if_splits option.splits)

lemma copyFile_content:
  assumes "copy_succeeds src dst mode w" and "src \<noteq> dst"
  shows "map_option Content (Files (snd (copyFile src dst mode w)) dst) =
         map_option Content (Files w src)"
  using assms
  by (auto simp: copyFile_def copy_succeeds_def os_Open_def File_Stat_def os_OpenFile_def
      io_Copy_def File_Write_def File_Close_def os_Remove_def record_event_def Let_def
      split: if_splits option.splits)

lemma ensureCopyFile_copied:
  assumes "fst (hashFile L (source d) w) = Inr h" and "fst (hashFile L (destination d) w) \<noteq> Inr h"
    and "\<not> HasError (fst (ensureCopyFile L d w))"
  shows "fst (snd (ensureCopyFile L d w)) = d\<lparr>content_sha256 := h\<rparr>
    \<and> map_option Content (Files (snd (snd (ensureCopyFile L d w))) (destination d)) =
        map_option Content (Files w (source d))"
proof -
  let ?w1 = "snd (hashFile L (source d) w)"
  let ?w2 = "snd (hashFile L (destination d) ?w1)"
  have w2: "Files ?w2 = Files w" "Fault ?w2 = Fault w"
    by (simp_all add: hashFile_frame)
  have m: "fst (hashFile L (destination d) ?w1) \<noteq> Inr h"
    using assms(2) by (simp add: hashFile_fst_after)
  have neq: "source d \<noteq> destination d"
    using assms(1,2) by auto
  show ?thesis
  proof (cases "resolved_mode d")
    case None
    then obtain e where bad: "file_mode d \<noteq> []" "ParseUint (file_mode d) = Inl e"
      by (auto simp: resolved_mode_def split: if_splits sum.splits)
    from assms(3) show ?thesis
      by (simp add: ensureCopyFile_invalid [OF assms(1) m bad] HasError_invalid_mode)
  next
    case (Some mode)
    then have r: "if file_mode d = [] then mode = 0 else ParseUint (file_mode d) = Inr mode"
      by (auto simp: resolved_mode_def split: if_splits sum.splits)
    note e = ensureCopyFile_copy [OF assms(1) m r]
    show ?thesis
    proof (cases "fst (copyFile (source d) (destination d) mode ?w2)")
      case (Some err)
      with assms(3) show ?thesis
        by (cases "copyFile (source d) (destination d) mode ?w2") (simp add: e HasError_FromErr)
    next
      case None
      then have "copy_succeeds (source d) (destination d) mode ?w2"
        by (simp add: copyFile_fst)
      from copyFile_content [OF this neq] None show ?thesis
        by (cases "copyFile (source d) (destination d) mode ?w2") (simp add: e w2)
    qed
  qed
qed

lemma resourceFileCreate_no_error:
  "\<not> HasError (fst (resourceFileCreate L d w)) \<Longrightarrow> \<not> HasError (fst (ensureCopyFile L d w))"
  using resourceFileCreate_error [of L d w] by auto

text \<open>
  Claim C1 against the code. When the fingerprints of source and destination are equal,
  \<^verbatim>\<open>ensureCopyFile\<close> is the permission reconciliation \<^verbatim>\<open>ensureFileMode\<close> and nothing else: no
  event of the trace opens a file for writing, copies or removes, the content of every file is
  as it was, and the data are returned as they were given, because the function returns before
  it sets the fingerprint attribute. So Create sets the attribute only when it copies. When
  the first Create copies, the attribute is the fingerprint of the source and the destination
  holds the bytes of the source; a second Create with the same configuration, which finds the
  fingerprints equal, copies nothing and returns the attribute as the configuration has it and
  not the fingerprint.
\<close>

theorem create_twice_fingerprint:
  "(fst (hashFile L (source d) w) = Inr h \<and> fst (hashFile L (destination d) w) = Inr h \<longrightarrow>
      ensureCopyFile L d w =
        (fst (ensureFileMode d (snd (hashFile L (destination d) (snd (hashFile L (source d) w))))),
         d,
         snd (ensureFileMode d (snd (hashFile L (destination d) (snd (hashFile L (source d) w))))))
      \<and> content_sha256 (fst (snd (resourceFileCreate L d w))) = content_sha256 d
      \<and> map_option Content (Files (snd (snd (resourceFileCreate L d w))) p) =
          map_option Content (Files w p)
      \<and> filter is_copy_event (new_events w (snd (snd (resourceFileCreate L d w)))) = [])
   \<and> (fst (hashFile L (source d) w) = Inr h \<and> fst (hashFile L (destination d) w) \<noteq> Inr h
        \<and> \<not> HasError (fst (resourceFileCreate L d w)) \<longrightarrow>
      content_sha256 (fst (snd (resourceFileCreate L d w))) = h
      \<and> map_option Content (Files (snd (snd (resourceFileCreate L d w))) (destination d)) =
          map_option Content (Files w (source d))
      \<and> fst (hashFile L (source d) (snd (snd (resourceFileCreate L d w)))) = Inr h
      \<and> (fst (hashFile L (destination d) (snd (snd (resourceFileCreate L d w)))) = Inr h \<longrightarrow>
           content_sha256
             (fst (snd (resourceFileCreate L d (snd (snd (resourceFileCreate L d w)))))) =
           content_sha256 d
           \<and> filter is_copy_event
                (new_events (snd (snd (resourceFileCreate L d w)))
                   (snd (snd (resourceFileCreate L d (snd (snd (resourceFileCreate L d w))))))) = []))"
proof -
  note c = resourceFileCreate_summary
  have match: "ensureCopyFile L d v =
        (fst (ensureFileMode d (snd (hashFile L (destination d) (snd (hashFile L (source d) v))))),
         d,
         snd (ensureFileMode d (snd (hashFile L (destination d) (snd (hashFile L (source d) v))))))
      \<and> content_sha256 (fst (snd (resourceFileCreate L d v))) = content_sha256 d
      \<and> map_option Content (Files (snd (snd (resourceFileCreate L d v))) p) =
          map_option Content (Files v p)
      \<and> filter is_copy_event (new_events v (snd (snd (resourceFileCreate L d v)))) = []"
    if h: "fst (hashFile L (source d) v) = Inr h" "fst (hashFile L (destination d) v) = Inr h"
    for v
  proof -
    have m: "fst (hashFile L (destination d) (snd (hashFile L (source d) v))) = Inr h"
      using h(2) by (simp add: hashFile_fst_after)
    have n: "\<not> copies L d v" using h by (simp add: copies_def)
    have "map_option Content (Files (snd (snd (ensureCopyFile L d v))) p) =
          map_option Content (Files v p)"
      using ensureCopyFile_summary [of L d v p] h by simp
    then show ?thesis
      using ensureCopyFile_match [OF h(1) m] ensureCopyFile_match_trace [OF h] n
      by (simp add: c content_sha256_summary)
  qed
  have copy: "content_sha256 (fst (snd (resourceFileCreate L d w))) = h
      \<and> map_option Content (Files (snd (snd (resourceFileCreate L d w))) (destination d)) =
          map_option Content (Files w (source d))
      \<and> fst (hashFile L (source d) (snd (snd (resourceFileCreate L d w)))) = Inr h
      \<and> (fst (hashFile L (destination d) (snd (snd (resourceFileCreate L d w)))) = Inr h \<longrightarrow>
           content_sha256
             (fst (snd (resourceFileCreate L d (snd (snd (resourceFileCreate L d w)))))) =
           content_sha256 d
           \<and> filter is_copy_event
                (new_events (snd (snd (resourceFileCreate L d w)))
                   (snd (snd (resourceFileCreate L d (snd (snd (resourceFileCreate L d w))))))) = [])"
    if h: "fst (hashFile L (source d) w) = Inr h" "fst (hashFile L (destination d) w) \<noteq> Inr h"
      "\<not> HasError (fst (resourceFileCreate L d w))"
  proof -
    let ?w1 = "snd (snd (resourceFileCreate L d w))"
    have ne: "\<not> HasError (fst (ensureCopyFile L d w))"
      using h(3) by (rule resourceFileCreate_no_error)
    note k = ensureCopyFile_copied [OF h(1,2) ne]
    have w1: "?w1 = snd (snd (ensureCopyFile L d w))" by (simp add: c)
    have s: "fst (hashFile L (source d) ?w1) = Inr h"
      unfolding w1 using h(1) by (simp add: hashFile_source_after)
    have again: "content_sha256 (fst (snd (resourceFileCreate L d ?w1))) = content_sha256 d
        \<and> filter is_copy_event (new_events ?w1 (snd (snd (resourceFileCreate L d ?w1)))) = []"
      if "fst (hashFile L (destination d) ?w1) = Inr h"
      using match [OF s that] by blast
    show ?thesis
      using k s again by (simp add: c)
  qed
  show ?thesis
    using match [of w] copy by blast
qed

lemma fileToID_dst: "fileToID (Some ''/work'') ''/dst'' = Inr ''file:///dst''"
  by code_simp

lemma resourceFileCreate_ok:
  assumes "ensureCopyFile L d w = ([], d1, w1)" and "fileToID (Getwd w1) (destination d1) = Inr i"
  shows "resourceFileCreate L d w = ([], d1\<lparr>Ident := i\<rparr>, w1)"
  using assms by (simp add: resourceFileCreate_def HasError_def)

lemma file_data_simps:
  "source (file_data fm) = ''/src''" "destination (file_data fm) = ''/dst''"
  "file_mode (file_data fm) = fm" "content_sha256 (file_data fm) = []"
  by (simp_all add: file_data_def)

lemma create_src_world:
  "resourceFileCreate lib0 (file_data []) src_world =
     ([], (file_data [])\<lparr>content_sha256 := ''sha256:foo'', Ident := ''file:///dst''\<rparr>,
      src_world
        \<lparr>Files := (Files src_world)(''/dst'' \<mapsto> \<lparr>Content = ''foo'', Mode = 420\<rparr>),
         Trace := [EvOpen ''/src'', EvRead ''/src'', EvOpen ''/dst'', EvOpen ''/src'',
                   EvFstat ''/src'', EvOpenFile ''/dst'' 420, EvCopy ''/src'' ''/dst'',
                   EvClose ''/dst'']\<rparr>)"
proof -
  let ?d = "file_data []"
  let ?w1 = "snd (hashFile lib0 ''/src'' src_world)"
  let ?w2 = "snd (hashFile lib0 ''/dst'' ?w1)"
  note s = file_data_simps [of "[]"]
  have h1: "fst (hashFile lib0 (source ?d) src_world) = Inr ''sha256:foo''"
    by (simp add: s hashFile_src_world)
  have h2: "fst (hashFile lib0 (destination ?d) (snd (hashFile lib0 (source ?d) src_world)))
      \<noteq> Inr ''sha256:foo''"
    by (simp add: s hashFile_fst hashFile_snd src_world_simps)
  have m: "if file_mode ?d = [] then (0::nat) = 0 else ParseUint (file_mode ?d) = Inr 0"
    by (simp add: s)
  have w2: "?w2 = src_world\<lparr>Trace := [EvOpen ''/src'', EvRead ''/src'', EvOpen ''/dst'']\<rparr>"
    by (simp add: hashFile_snd src_world_simps)
  have o: "fst (os_Open ''/src'' ?w2) = Inr \<lparr>Content = ''foo'', Mode = 420\<rparr>"
    by (simp add: os_Open_def w2 src_world_simps)
  have f: "(0::nat) = 0 \<longrightarrow> \<not> Fault ?w2 SysFstat ''/src''" "\<not> Fault ?w2 SysOpenFile ''/dst''"
    "\<not> Fault ?w2 SysRead ''/src''" "\<not> Fault ?w2 SysWrite ''/dst''" "\<not> Fault ?w2 SysClose ''/dst''"
    "''/src'' \<noteq> ''/dst''"
    by (simp_all add: w2 src_world_simps)
  have cf: "copyFile ''/src'' ''/dst'' 0 ?w2 =
     (None,
      src_world
        \<lparr>Files := (Files src_world)(''/dst'' \<mapsto> \<lparr>Content = ''foo'', Mode = 420\<rparr>),
         Trace := [EvOpen ''/src'', EvRead ''/src'', EvOpen ''/dst'', EvOpen ''/src'',
                   EvFstat ''/src'', EvOpenFile ''/dst'' 420, EvCopy ''/src'' ''/dst'',
                   EvClose ''/dst'']\<rparr>)"
    unfolding copyFile_success [OF o f]
    by (simp add: w2 src_world_simps syscallMode_def apply_umask_022)
  have e: "ensureCopyFile lib0 ?d src_world =
     ([], ?d\<lparr>content_sha256 := ''sha256:foo''\<rparr>,
      src_world
        \<lparr>Files := (Files src_world)(''/dst'' \<mapsto> \<lparr>Content = ''foo'', Mode = 420\<rparr>),
         Trace := [EvOpen ''/src'', EvRead ''/src'', EvOpen ''/dst'', EvOpen ''/src'',
                   EvFstat ''/src'', EvOpenFile ''/dst'' 420, EvCopy ''/src'' ''/dst'',
                   EvClose ''/dst'']\<rparr>)"
    using cf by (simp add: ensureCopyFile_copy [OF h1 h2 m] s)
  show ?thesis
    by (rule resourceFileCreate_ok [OF e]) (simp add: s src_world_def world_of_def fileToID_dst)
qed

lemma sha256_hex_lib0: "sha256_hex lib0 s = ''sha256:'' @ s"
  by (simp add: lib0_def)

text \<open>The world that the first Create of \<open>file_data\<close> leaves.\<close>

lemma copied_world_simps:
  "Files (snd (snd (resourceFileCreate lib0 (file_data []) src_world))) ''/src'' =
     Some \<lparr>Content = ''foo'', Mode = 420\<rparr>"
  "Files (snd (snd (resourceFileCreate lib0 (file_data []) src_world))) ''/dst'' =
     Some \<lparr>Content = ''foo'', Mode = 420\<rparr>"
  "Fault (snd (snd (resourceFileCreate lib0 (file_data []) src_world))) c p = False"
  "Getwd (snd (snd (resourceFileCreate lib0 (file_data []) src_world))) = Some ''/work''"
  by (simp_all add: create_src_world src_world_simps) (simp add: src_world_def world_of_def)

lemma create_again:
  "fst (resourceFileCreate lib0 (file_data [])
          (snd (snd (resourceFileCreate lib0 (file_data []) src_world)))) = []"
proof -
  let ?d = "file_data []"
  let ?v = "snd (snd (resourceFileCreate lib0 ?d src_world))"
  let ?v1 = "snd (hashFile lib0 (source ?d) ?v)"
  let ?v2 = "snd (hashFile lib0 (destination ?d) ?v1)"
  note s = file_data_simps [of "[]"]
  note v = copied_world_simps
  have h1: "fst (hashFile lib0 (source ?d) ?v) = Inr ''sha256:foo''"
    by (simp add: s hashFile_fst v sha256_hex_lib0)
  have h2: "fst (hashFile lib0 (destination ?d) ?v1) = Inr ''sha256:foo''"
    by (simp add: s hashFile_fst hashFile_snd v sha256_hex_lib0)
  have st: "fst (os_Stat (destination ?d) ?v2) = Inr \<lparr>Content = ''foo'', Mode = 420\<rparr>"
    by (simp add: os_Stat_fst hashFile_frame v s)
  have ss: "fst (os_Stat (source ?d) (snd (os_Stat (destination ?d) ?v2))) =
      Inr \<lparr>Content = ''foo'', Mode = 420\<rparr>"
    by (simp add: os_Stat_fst os_Stat_snd hashFile_frame v s)
  have e: "ensureCopyFile lib0 ?d ?v =
      ([], ?d, snd (os_Stat (source ?d) (snd (os_Stat (destination ?d) ?v2))))"
    unfolding ensureCopyFile_match [OF h1 h2] ensureFileMode_mirror [OF st s(3) ss]
    by simp
  have g: "fileToID (Getwd (snd (os_Stat (source ?d) (snd (os_Stat (destination ?d) ?v2)))))
      (destination ?d) = Inr ''file:///dst''"
    by (simp add: os_Stat_snd hashFile_snd v s fileToID_dst)
  show ?thesis
    by (simp add: resourceFileCreate_ok [OF e g])
qed

lemma match_world_simps:
  "Files match_world ''/src'' = Some \<lparr>Content = ''foo'', Mode = 420\<rparr>"
  "Files match_world ''/dst'' = Some \<lparr>Content = ''foo'', Mode = 384\<rparr>"
  "Fault match_world c p = False"
  "Umask match_world = 18"
  "Trace match_world = []"
  "Getwd match_world = Some ''/work''"
  by (simp_all add: match_world_def world_of_def)

text \<open>Create on a destination that holds the bytes of the source with another mode: the mode
  is reconciled, nothing is copied and the fingerprint attribute is not set.\<close>

lemma create_match_world:
  "resourceFileCreate lib0 (file_data []) match_world =
     ([], (file_data [])\<lparr>Ident := ''file:///dst''\<rparr>,
      match_world
        \<lparr>Files := (Files match_world)(''/dst'' \<mapsto> \<lparr>Content = ''foo'', Mode = 420\<rparr>),
         Trace := [EvOpen ''/src'', EvRead ''/src'', EvOpen ''/dst'', EvRead ''/dst'',
                   EvStat ''/dst'', EvStat ''/src'', EvChmod ''/dst'' 420]\<rparr>)"
proof -
  let ?d = "file_data []"
  let ?v = "match_world"
  let ?v1 = "snd (hashFile lib0 (source ?d) ?v)"
  let ?v2 = "snd (hashFile lib0 (destination ?d) ?v1)"
  note s = file_data_simps [of "[]"]
  note v = match_world_simps
  have h1: "fst (hashFile lib0 (source ?d) ?v) = Inr ''sha256:foo''"
    by (simp add: s hashFile_fst v sha256_hex_lib0)
  have h2: "fst (hashFile lib0 (destination ?d) ?v1) = Inr ''sha256:foo''"
    by (simp add: s hashFile_fst hashFile_snd v sha256_hex_lib0)
  have st: "fst (os_Stat (destination ?d) ?v2) = Inr \<lparr>Content = ''foo'', Mode = 384\<rparr>"
    by (simp add: os_Stat_fst hashFile_frame v s)
  have ss: "fst (os_Stat (source ?d) (snd (os_Stat (destination ?d) ?v2))) =
      Inr \<lparr>Content = ''foo'', Mode = 420\<rparr>"
    by (simp add: os_Stat_fst os_Stat_snd hashFile_frame v s)
  have e: "ensureCopyFile lib0 ?d ?v =
     ([], ?d,
      match_world
        \<lparr>Files := (Files match_world)(''/dst'' \<mapsto> \<lparr>Content = ''foo'', Mode = 420\<rparr>),
         Trace := [EvOpen ''/src'', EvRead ''/src'', EvOpen ''/dst'', EvRead ''/dst'',
                   EvStat ''/dst'', EvStat ''/src'', EvChmod ''/dst'' 420]\<rparr>)"
    unfolding ensureCopyFile_match [OF h1 h2] ensureFileMode_mirror [OF st s(3) ss]
    by (simp add: os_Chmod_fst os_Chmod_snd os_Stat_snd hashFile_snd v s syscallMode_def)
  show ?thesis
    by (rule resourceFileCreate_ok [OF e]) (simp add: s v fileToID_dst)
qed

theorem create_twice_fingerprint_witness:
  "content_sha256 (file_data []) = []
   \<and> Files match_world ''/dst'' = Some \<lparr>Content = ''foo'', Mode = 384\<rparr>
   \<and> fst (resourceFileCreate lib0 (file_data []) match_world) = []
   \<and> content_sha256 (fst (snd (resourceFileCreate lib0 (file_data []) match_world))) = []
   \<and> filter is_copy_event
        (new_events match_world (snd (snd (resourceFileCreate lib0 (file_data []) match_world)))) = []
   \<and> new_events match_world (snd (snd (resourceFileCreate lib0 (file_data []) match_world))) =
       [EvOpen ''/src'', EvRead ''/src'', EvOpen ''/dst'', EvRead ''/dst'',
        EvStat ''/dst'', EvStat ''/src'', EvChmod ''/dst'' 420]
   \<and> Files (snd (snd (resourceFileCreate lib0 (file_data []) match_world))) ''/dst'' =
       Some \<lparr>Content = ''foo'', Mode = 420\<rparr>
   \<and> fst (resourceFileCreate lib0 (file_data []) src_world) = []
   \<and> content_sha256 (fst (snd (resourceFileCreate lib0 (file_data []) src_world))) = ''sha256:foo''
   \<and> map_option Content
        (Files (snd (snd (resourceFileCreate lib0 (file_data []) src_world))) ''/dst'') = Some ''foo''
   \<and> fst (resourceFileCreate lib0 (file_data [])
            (snd (snd (resourceFileCreate lib0 (file_data []) src_world)))) = []
   \<and> content_sha256
        (fst (snd (resourceFileCreate lib0 (file_data [])
                     (snd (snd (resourceFileCreate lib0 (file_data []) src_world)))))) = []"
proof -
  let ?d = "file_data []"
  let ?v = "snd (snd (resourceFileCreate lib0 ?d src_world))"
  note s = file_data_simps [of "[]"]
  have m: "fst (hashFile lib0 (source ?d) match_world) = Inr ''sha256:foo''
      \<and> fst (hashFile lib0 (destination ?d) match_world) = Inr ''sha256:foo''"
    by (simp add: hashFile_fst match_world_simps s sha256_hex_lib0)
  have one: "content_sha256 (fst (snd (resourceFileCreate lib0 ?d match_world))) = []
      \<and> filter is_copy_event
          (new_events match_world (snd (snd (resourceFileCreate lib0 ?d match_world)))) = []"
    using create_twice_fingerprint [of lib0 ?d match_world "''sha256:foo''" "''/dst''"] m
    by (simp add: s)
  have h: "fst (hashFile lib0 (source ?d) src_world) = Inr ''sha256:foo''"
    "fst (hashFile lib0 (destination ?d) src_world) \<noteq> Inr ''sha256:foo''"
    "\<not> HasError (fst (resourceFileCreate lib0 ?d src_world))"
    "fst (hashFile lib0 (destination ?d) ?v) = Inr ''sha256:foo''"
    "fst (resourceFileCreate lib0 ?d src_world) = []"
       apply (simp add: s hashFile_src_world)
      apply (simp add: s hashFile_fst src_world_simps)
     apply (simp add: create_src_world HasError_def)
    apply (simp add: s hashFile_fst copied_world_simps sha256_hex_lib0)
    apply (simp add: create_src_world)
    done
  have two: "content_sha256 (fst (snd (resourceFileCreate lib0 ?d src_world))) = ''sha256:foo''
      \<and> map_option Content (Files ?v ''/dst'') = Some ''foo''
      \<and> content_sha256 (fst (snd (resourceFileCreate lib0 ?d ?v))) = []"
    using create_twice_fingerprint [of lib0 ?d src_world "''sha256:foo''" "''/dst''"] h(1-4)
    by (simp add: s src_world_simps)
  have three: "fst (resourceFileCreate lib0 ?d match_world) = []
      \<and> new_events match_world (snd (snd (resourceFileCreate lib0 ?d match_world))) =
          [EvOpen ''/src'', EvRead ''/src'', EvOpen ''/dst'', EvRead ''/dst'',
           EvStat ''/dst'', EvStat ''/src'', EvChmod ''/dst'' 420]
      \<and> Files (snd (snd (resourceFileCreate lib0 ?d match_world))) ''/dst'' =
          Some \<lparr>Content = ''foo'', Mode = 420\<rparr>"
    by (simp add: create_match_world new_events_def match_world_simps)
  show ?thesis
    using one two three h(5) create_again by (simp add: s match_world_simps)
qed

section \<open>The identity codec\<close>

lemma split_sep_not_Nil: "split_sep s \<noteq> []"
  by (induction s) (auto split: list.splits)

lemma split_sep_no_slash: "e \<in> set (split_sep s) \<Longrightarrow> CHR ''/'' \<notin> set e"
proof (induction s arbitrary: e)
  case Nil
  then show ?case by simp
next
  case (Cons c cs)
  then show ?case
    by (cases "split_sep cs") (auto split: if_splits)
qed

lemma split_sep_no_sep: "CHR ''/'' \<notin> set e \<Longrightarrow> split_sep e = [e]"
  by (induction e) auto

lemma split_sep_append:
  "CHR ''/'' \<notin> set e \<Longrightarrow> split_sep (e @ CHR ''/'' # s) = e # split_sep s"
  by (induction e) auto

lemma split_join:
  "cs \<noteq> [] \<Longrightarrow> \<forall>e \<in> set cs. CHR ''/'' \<notin> set e \<Longrightarrow> split_sep (join_sep cs) = cs"
proof (induction cs rule: join_sep.induct)
  case 1
  then show ?case by simp
next
  case (2 x)
  then show ?case by (simp add: split_sep_no_sep)
next
  case (3 x y ys)
  then show ?case by (simp add: split_sep_append)
qed

lemma clean_step_regular:
  assumes "\<forall>e \<in> set st. regular e" and "CHR ''/'' \<notin> set e"
  shows "\<forall>e \<in> set (clean_step True st e). regular e"
  using assms
  by (cases st) (auto simp: clean_step_def regular_def)

lemma foldl_clean_step_regular:
  assumes "\<forall>e \<in> set st. regular e" and "\<forall>e \<in> set es. CHR ''/'' \<notin> set e"
  shows "\<forall>e \<in> set (foldl (clean_step True) st es). regular e"
  using assms
proof (induction es arbitrary: st)
  case Nil
  then show ?case by simp
next
  case (Cons a es)
  have "\<forall>e \<in> set (clean_step True st a). regular e"
    using Cons.prems by (intro clean_step_regular) simp_all
  with Cons show ?case by simp
qed

lemma foldl_clean_step_keeps:
  assumes "\<forall>e \<in> set es. regular e"
  shows "foldl (clean_step True) st es = rev es @ st"
  using assms
  by (induction es arbitrary: st) (auto simp: clean_step_def regular_def)

lemma Clean_rooted:
  "Clean (CHR ''/'' # s) =
     CHR ''/'' # join_sep (rev (foldl (clean_step True) [] (split_sep s)))"
  by (simp add: Clean_def clean_step_def)

lemma Clean_of_regular:
  assumes "\<forall>e \<in> set cs. regular e"
  shows "Clean (CHR ''/'' # join_sep cs) = CHR ''/'' # join_sep cs"
proof (cases "cs = []")
  case True
  then show ?thesis by (simp add: Clean_rooted clean_step_def)
next
  case False
  have "\<forall>e \<in> set cs. CHR ''/'' \<notin> set e"
    using assms by (auto simp: regular_def split: if_splits)
  with False have "split_sep (join_sep cs) = cs" by (rule split_join)
  then show ?thesis
    by (simp add: Clean_rooted foldl_clean_step_keeps [OF assms])
qed

lemma Clean_idem: "Clean (Clean (CHR ''/'' # s)) = Clean (CHR ''/'' # s)"
proof -
  let ?cs = "rev (foldl (clean_step True) [] (split_sep s))"
  have "\<forall>e \<in> set (foldl (clean_step True) [] (split_sep s)). regular e"
    by (intro foldl_clean_step_regular) (auto dest: split_sep_no_slash)
  then have r: "\<forall>e \<in> set ?cs. regular e"
    by simp
  have a: "Clean (CHR ''/'' # s) = CHR ''/'' # join_sep ?cs"
    by (rule Clean_rooted)
  have b: "Clean (CHR ''/'' # join_sep ?cs) = CHR ''/'' # join_sep ?cs"
    using r by (rule Clean_of_regular)
  show ?thesis by (simp only: a b)
qed

lemma IsAbs_iff: "IsAbs p \<longleftrightarrow> (\<exists>s. p = CHR ''/'' # s)"
  by (cases p) (auto simp: IsAbs_def HasPrefix_def)

lemma filepath_Abs_absolute: "IsAbs p \<Longrightarrow> filepath_Abs wd p = Some (Clean p)"
  by (simp add: filepath_Abs_def)

lemma Clean_absolute: "IsAbs p \<Longrightarrow> IsAbs (Clean p) \<and> Clean (Clean p) = Clean p"
  by (auto simp: IsAbs_iff Clean_idem) (simp add: Clean_rooted)

subsection \<open>Escaping\<close>

lemma hex_table:
  "list_all (\<lambda>n. ishex (upperhex n) \<and> unhex (upperhex n) = n \<and> url_safe (upperhex n)) [0..<16]"
  by code_simp

lemma upperhex_unhex:
  "n < 16 \<Longrightarrow> ishex (upperhex n) \<and> unhex (upperhex n) = n \<and> url_safe (upperhex n)"
  using hex_table by (simp add: list_all_iff del: upt.simps)

lemma char_of_byte: "char_of (byte c div 16 * 16 + byte c mod 16) = c"
  by (simp add: byte_def)

lemma byte_less: "byte c < 256"
  by (simp add: byte_def)

lemma percent_escaped: "shouldEscape CHR ''%''"
  by (simp add: shouldEscape_def byte_def)

lemma unescape_escape: "unescape (escape s) = Some s"
proof (induction s)
  case Nil
  show ?case by simp
next
  case (Cons c s)
  show ?case
  proof (cases "shouldEscape c")
    case True
    have "byte c div 16 < 16" "byte c mod 16 < 16"
      using byte_less [of c] by simp_all
    with True Cons show ?thesis
      using char_of_byte [of c] by (simp add: upperhex_unhex)
  next
    case False
    then have "c \<noteq> CHR ''%''" using percent_escaped by auto
    with False Cons show ?thesis by simp
  qed
qed

lemma marks_safe: "list_all url_safe ''-_.~$&+,/:;=@''"
  by code_simp

lemma byte_chars: "byte CHR ''#'' = 35" "byte CHR ''?'' = 63"
  by (simp_all add: byte_def)

lemma range_safe:
  assumes "lo \<le> byte c" "byte c \<le> hi" "64 < lo \<or> (35 < lo \<and> hi < 63)" "hi < 127"
  shows "url_safe c"
proof -
  have "c \<noteq> CHR ''#''" "c \<noteq> CHR ''?''"
    using assms byte_chars by auto
  with assms show ?thesis by (auto simp: url_safe_def)
qed

lemma not_escaped_safe: "\<not> shouldEscape c \<Longrightarrow> url_safe c"
proof -
  assume a: "\<not> shouldEscape c"
  consider "97 \<le> byte c \<and> byte c \<le> 122" | "65 \<le> byte c \<and> byte c \<le> 90"
    | "48 \<le> byte c \<and> byte c \<le> 57" | "c \<in> set ''-_.~$&+,/:;=@''"
    using a unfolding shouldEscape_def by (auto split: if_splits)
  then show ?thesis
  proof cases
    case 1 then show ?thesis by (intro range_safe [of 97 c 122]) simp_all
  next
    case 2 then show ?thesis by (intro range_safe [of 65 c 90]) simp_all
  next
    case 3 then show ?thesis by (intro range_safe [of 48 c 57]) simp_all
  next
    case 4 with marks_safe show ?thesis unfolding list_all_iff by blast
  qed
qed

lemma escape_safe: "c \<in> set (escape s) \<Longrightarrow> url_safe c"
proof (induction s)
  case Nil
  then show ?case by simp
next
  case (Cons a s)
  show ?case
  proof (cases "shouldEscape a")
    case True
    have "byte a div 16 < 16" "byte a mod 16 < 16"
      using byte_less [of a] by simp_all
    then have h: "url_safe (upperhex (byte a div 16))" "url_safe (upperhex (byte a mod 16))"
      by (simp_all add: upperhex_unhex)
    have p: "url_safe CHR ''%''"
      by (simp add: url_safe_def byte_def)
    from Cons.prems True have "c = CHR ''%'' \<or> c = upperhex (byte a div 16)
        \<or> c = upperhex (byte a mod 16) \<or> c \<in> set (escape s)"
      by simp
    with h p Cons.IH show ?thesis by blast
  next
    case False
    with Cons.prems have "c = a \<or> c \<in> set (escape s)" by simp
    with False Cons.IH show ?thesis by (blast intro: not_escaped_safe)
  qed
qed

lemma slash_kept: "\<not> shouldEscape CHR ''/''"
  by (simp add: shouldEscape_def byte_def)

lemma escape_rooted: "escape (CHR ''/'' # s) = CHR ''/'' # escape s"
  by (simp add: slash_kept)

subsection \<open>Parsing what \<^verbatim>\<open>fileToID\<close> writes\<close>

lemma Cut_absent: "sep \<notin> set s \<Longrightarrow> Cut s sep = (s, [], False)"
  by (simp add: Cut_def)

lemma Cut_first: "Cut (sep # s) sep = ([], s, True)"
  by (simp add: Cut_def)

lemma getScheme_file:
  "getScheme r 0 (''file:'' @ s) = Some (take 4 r, s)"
  by (simp add: byte_def eval_nat_numeral)

lemma url_parse_file:
  assumes safe: "\<forall>c \<in> set e. url_safe c" and un: "unescape (CHR ''/'' # e) = Some q"
  shows "url_parse L (''file:///'' @ e) =
     Some \<lparr>Scheme = ''file'', Opaque = [], Host = [], Path = q, ForceQuery = False,
           RawQuery = [], Fragment = []\<rparr>"
proof -
  let ?raw = "''file:///'' @ e"
  let ?rest = "''///'' @ e"
  have q: "CHR ''?'' \<notin> set e" and ctl: "\<not> list_ex (\<lambda>c. byte c < 32 \<or> byte c = 127) e"
    using safe by (auto simp: url_safe_def list_ex_iff split: if_splits)
  have c: "\<not> stringContainsCTLByte ?raw"
    using ctl by (simp add: stringContainsCTLByte_def byte_def)
  have s: "getScheme ?raw 0 ?raw = Some (''file'', ?rest)"
    using getScheme_file [of ?raw ?rest] by simp
  have l: "ToLower ''file'' = ''file''"
    by (simp add: ToLower_def byte_def)
  have f: "\<not> (?rest \<noteq> [] \<and> last ?rest = CHR ''?'' \<and> count_list ?rest CHR ''?'' = 1)"
  proof (cases "e = []")
    case True
    then show ?thesis by simp
  next
    case False
    then have "last ?rest = last e" by simp
    moreover have "last e \<in> set e" using False by simp
    ultimately show ?thesis using q by auto
  qed
  have cut: "Cut ?rest CHR ''?'' = (?rest, [], False)"
    using q by (intro Cut_absent) simp
  have a: "Cut (drop 2 ?rest) CHR ''/'' = ([], e, True)"
    by (simp add: Cut_first)
  have ne: "?raw \<noteq> ''*''" by simp
  have "url_parse L ?raw =
      (case unescape (CHR ''/'' # e) of
         None \<Rightarrow> None
       | Some p \<Rightarrow>
           Some \<lparr>Scheme = ''file'', Opaque = [], Host = [], Path = p, ForceQuery = False,
                 RawQuery = [], Fragment = []\<rparr>)"
    unfolding url_parse_def
    by (simp only: c ne s l f cut a HasPrefix_def Let_def if_False if_True option.case
        prod.case fst_conv snd_conv)
      (simp split: option.splits)
  then show ?thesis by (simp only: un option.case)
qed

lemma url_Parse_file:
  assumes "\<forall>c \<in> set e. url_safe c" and "unescape (CHR ''/'' # e) = Some q"
  shows "url_Parse L (''file:///'' @ e) =
     Some \<lparr>Scheme = ''file'', Opaque = [], Host = [], Path = q, ForceQuery = False,
           RawQuery = [], Fragment = []\<rparr>"
proof -
  have "CHR ''#'' \<notin> set (''file:///'' @ e)"
    using assms(1) by (auto simp: url_safe_def split: if_splits)
  then have cut: "Cut (''file:///'' @ e) CHR ''#'' = (''file:///'' @ e, [], False)"
    by (rule Cut_absent)
  note p = url_parse_file [OF assms, of L]
  show ?thesis
    by (simp only: url_Parse_def cut prod.case p option.case) simp
qed

lemma URL_String_file:
  "URL_String \<lparr>Scheme = ''file'', Opaque = [], Host = [], Path = CHR ''/'' # s,
               ForceQuery = False, RawQuery = [], Fragment = []\<rparr> =
     ''file:///'' @ escape s"
  by (simp add: URL_String_def slash_kept Let_def)

lemma roundtrip_rooted:
  "fileToID wd (CHR ''/'' # s) = Inr (''file://'' @ escape (Clean (CHR ''/'' # s)))
   \<and> idToFile L wd' (''file://'' @ escape (Clean (CHR ''/'' # s))) = Inr (Clean (CHR ''/'' # s))"
proof -
  let ?p = "CHR ''/'' # s"
  obtain t where t: "Clean ?p = CHR ''/'' # t"
    by (simp add: Clean_rooted)
  have a: "fileToID wd ?p = Inr (''file:///'' @ escape t)"
    by (simp add: fileToID_def filepath_Abs_def IsAbs_def HasPrefix_def t URL_String_file)
  have "unescape (CHR ''/'' # escape t) = Some (CHR ''/'' # t)"
    using unescape_escape [of "CHR ''/'' # t"] by (simp only: escape_rooted)
  then have "url_Parse L (''file:///'' @ escape t) =
      Some \<lparr>Scheme = ''file'', Opaque = [], Host = [], Path = CHR ''/'' # t, ForceQuery = False,
           RawQuery = [], Fragment = []\<rparr>"
    by (intro url_Parse_file) (auto dest: escape_safe)
  moreover have "filepath_Abs wd' (CHR ''/'' # t) = Some (CHR ''/'' # t)"
    using Clean_idem [of s] by (simp add: filepath_Abs_def IsAbs_def HasPrefix_def t)
  ultimately have b: "idToFile L wd' (''file:///'' @ escape t) = Inr (CHR ''/'' # t)"
    by (simp add: idToFile_def)
  show ?thesis
    using a b by (simp add: t slash_kept)
qed

text \<open>
  Claim C4, as the code has it. For an absolute path \<open>p\<close> the identity is \<open>file://\<close> followed
  by the escaped clean form of \<open>p\<close>, and decoding it returns that clean form
  (\<^verbatim>\<open>filepath.Abs\<close> cleans the path): the round trip returns \<open>p\<close> itself exactly when \<open>p\<close> is
  clean. \<^verbatim>\<open>fileToID\<close> fails only when the path cannot be made absolute, and \<^verbatim>\<open>idToFile\<close>
  fails with a format error for an identity that does not parse or whose scheme is not
  \<open>file\<close>.
\<close>

theorem identity_roundtrip:
  "(IsAbs p \<longrightarrow>
      fileToID wd p = Inr (''file://'' @ escape (Clean p))
      \<and> idToFile L wd' (''file://'' @ escape (Clean p)) = Inr (Clean p)
      \<and> (idToFile L wd' (''file://'' @ escape (Clean p)) = Inr p \<longleftrightarrow> Clean p = p))
   \<and> (fileToID wd q = Inl e \<longrightarrow> filepath_Abs wd q = None \<and> \<not> IsAbs q)
   \<and> (url_Parse L i = None \<longrightarrow> idToFile L wd' i = Inl (InvalidIdFormat i))
   \<and> (url_Parse L i = Some u \<and> Scheme u \<noteq> ''file'' \<longrightarrow>
        idToFile L wd' i = Inl (InvalidIdScheme (Scheme u)))"
proof -
  have a: "fileToID wd p = Inr (''file://'' @ escape (Clean p))
      \<and> idToFile L wd' (''file://'' @ escape (Clean p)) = Inr (Clean p)
      \<and> (idToFile L wd' (''file://'' @ escape (Clean p)) = Inr p \<longleftrightarrow> Clean p = p)"
    if abs: "IsAbs p"
  proof -
    obtain s where "p = CHR ''/'' # s" using abs unfolding IsAbs_iff by blast
    then show ?thesis using roundtrip_rooted [of wd s L wd'] by simp
  qed
  have b: "filepath_Abs wd q = None \<and> \<not> IsAbs q" if "fileToID wd q = Inl e"
    using that by (auto simp: fileToID_def filepath_Abs_def split: option.splits if_splits)
  have c: "idToFile L wd' i = Inl (InvalidIdFormat i)" if "url_Parse L i = None"
    using that by (simp add: idToFile_def)
  have d: "idToFile L wd' i = Inl (InvalidIdScheme (Scheme u))"
    if "url_Parse L i = Some u" "Scheme u \<noteq> ''file''"
    using that by (simp add: idToFile_def)
  show ?thesis using a b c d by blast
qed

lemma Clean_examples:
  "Clean ''/tmp/f'' = ''/tmp/f''" "Clean ''/tmp/x/../f'' = ''/tmp/f''"
  "escape ''/tmp/f'' = ''/tmp/f''"
  by code_simp+

theorem identity_roundtrip_witness:
  "fileToID (Some ''/work'') ''/tmp/f'' = Inr ''file:///tmp/f''
   \<and> idToFile lib0 (Some ''/work'') ''file:///tmp/f'' = Inr ''/tmp/f''"
proof -
  have "IsAbs ''/tmp/f''" by (simp add: IsAbs_def HasPrefix_def)
  then have "fileToID (Some ''/work'') ''/tmp/f'' = Inr (''file://'' @ escape (Clean ''/tmp/f''))
      \<and> idToFile lib0 (Some ''/work'') (''file://'' @ escape (Clean ''/tmp/f'')) =
          Inr (Clean ''/tmp/f'')"
    using identity_roundtrip [of "''/tmp/f''" "Some ''/work''" lib0 "Some ''/work''"]
    by blast
  then show ?thesis
    by (simp only: Clean_examples append_Cons append_Nil)
qed

text \<open>Against claim C4 as stated: the path \<open>/tmp/x/../f\<close> is absolute, and decoding its
  identity returns \<open>/tmp/f\<close>.\<close>

theorem identity_roundtrip_counterexample:
  "IsAbs ''/tmp/x/../f''
   \<and> fileToID (Some ''/work'') ''/tmp/x/../f'' = Inr ''file:///tmp/f''
   \<and> idToFile lib0 (Some ''/work'') ''file:///tmp/f'' = Inr ''/tmp/f''
   \<and> ''/tmp/f'' \<noteq> ''/tmp/x/../f''"
proof -
  have a: "IsAbs ''/tmp/x/../f''" by (simp add: IsAbs_def HasPrefix_def)
  have b: "fileToID (Some ''/work'') ''/tmp/x/../f'' = Inr ''file:///tmp/f''"
    by code_simp
  show ?thesis
    using a b idToFile_tmp_f by simp
qed

end
